theory Spec2Isabelle
  imports Complex_Main "HOL-Library.Sublist"
begin

section \<open>JavaScript strings\<close>

text \<open>
  Strings are lists of characters. The prompts, keywords and error messages the code
  compares are ASCII, where a JavaScript code unit and a \<^typ>\<open>char\<close> coincide.
\<close>

text \<open>\<^verbatim>\<open>s.includes(kw)\<close>: \<open>kw\<close> occurs in \<open>s\<close> as a contiguous block.\<close>

fun str_includes :: "string \<Rightarrow> string \<Rightarrow> bool" where
  "str_includes [] kw = (kw = [])"
| "str_includes (c # cs) kw = (prefix kw (c # cs) \<or> str_includes cs kw)"

text \<open>\<^verbatim>\<open>s.toLowerCase()\<close> on the ASCII letters; every other character is kept.\<close>

definition lower_char :: "char \<Rightarrow> char" where
  "lower_char c =
     (case map_of (zip ''ABCDEFGHIJKLMNOPQRSTUVWXYZ'' ''abcdefghijklmnopqrstuvwxyz'') c of
        Some d \<Rightarrow> d
      | None \<Rightarrow> c)"

definition toLowerCase :: "string \<Rightarrow> string" where
  "toLowerCase s = map lower_char s"

text \<open>\<^verbatim>\<open>s.trim()\<close>: the ASCII white space (tab, LF, VT, FF, CR, space) is removed at both ends.\<close>

definition is_ws :: "char \<Rightarrow> bool" where
  "is_ws c = (c \<in> set [CHR 0x09, CHR 0x0A, CHR 0x0B, CHR 0x0C, CHR 0x0D, CHR '' ''])"

definition trim :: "string \<Rightarrow> string" where
  "trim s = rev (dropWhile is_ws (rev (dropWhile is_ws s)))"

text \<open>Truthiness of a \<^verbatim>\<open>string | null | undefined\<close>: present and not the empty string.\<close>

fun truthy :: "string option \<Rightarrow> bool" where
  "truthy None = False"
| "truthy (Some s) = (s \<noteq> [])"

text \<open>\<^verbatim>\<open>xs.join(sep)\<close>.\<close>

fun join :: "string \<Rightarrow> string list \<Rightarrow> string" where
  "join sep [] = []"
| "join sep [x] = x"
| "join sep (x # y # ys) = x @ sep @ join sep (y # ys)"

section \<open>The service layer: \<^verbatim>\<open>geminiService.ts\<close>\<close>

datatype ImageSize = S1K | S2K | S4K

datatype AspectRatio = AR_1_1 | AR_3_4 | AR_4_3 | AR_9_16 | AR_16_9

record ImageReference =
  base64 :: string
  mimeType :: string

text \<open>\<^verbatim>\<open>types.ts\<close>: an \<open>ImageSource\<close> has the two fields of an \<open>ImageReference\<close> and more.\<close>

record ImageSource = ImageReference +
  url :: string
  prompt :: "string option"
  timestamp :: "nat option"
  isSheet :: "bool option"

text \<open>What is sent: the parts of the request, the model and its configuration.\<close>

datatype part = InlineData string string | TextPart string

record GenConfig =
  aspectRatio :: AspectRatio
  httpTimeout :: nat
  imageSize :: "ImageSize option"
  seed :: "int option"

record request =
  model :: string
  parts :: "part list"
  config :: GenConfig

text \<open>
  What comes back. Each segment may carry a text and may carry inline data (the data and
  its MIME type). A candidate may come without a content (a blocked answer has none), a
  content without its list of segments, and the response without \<open>candidates\<close>. The field
  \<^verbatim>\<open>parts\<close> of a content is \<open>content_parts\<close> here.
\<close>

record rpart =
  part_text :: "string option"
  inlineData :: "(string \<times> string) option"

record Content =
  content_parts :: "rpart list option"

record Candidate =
  content :: "Content option"

record response =
  candidates :: "Candidate list option"

text \<open>
  A call of \<^verbatim>\<open>ai.models.generateContent\<close> returns a response or throws; what is thrown
  is an \<^verbatim>\<open>Error\<close> with its message, or some other value with its \<^verbatim>\<open>String(...)\<close>.
\<close>

datatype thrown = JsError string | NonError string

datatype outcome = Returns response | Throws thrown

text \<open>
  The remote service is outside the program. The world holds its behaviour (the outcome
  of the \<open>n\<close>-th call, which may depend on the request), the requests sent so far and
  the delays waited so far (in milliseconds).
\<close>

record world =
  service :: "nat \<Rightarrow> request \<Rightarrow> outcome"
  sent :: "request list"
  slept :: "nat list"

definition generateContent :: "request \<Rightarrow> world \<Rightarrow> outcome \<times> world" where
  "generateContent req w = (service w (length (sent w)) req, w\<lparr>sent := sent w @ [req]\<rparr>)"

definition sleep :: "nat \<Rightarrow> world \<Rightarrow> world" where
  "sleep ms w = w\<lparr>slept := slept w @ [ms]\<rparr>"

definition FLUX_AESTHETIC_TOKENS :: string where
  "FLUX_AESTHETIC_TOKENS = ''hyper-realistic photography, 8k resolution, incredible details, highly detailed texture, 35mm film grain, masterpiece, sharp focus, professional lighting, cinematic color grading, depth of field, ray tracing, authentic look, unreal engine 5 render''"

definition MASK_NOTE :: string where
  "MASK_NOTE = '' (Note: The second image provided is a binary mask. Only edit the white areas of the mask and keep the black areas unchanged.)''"

definition bgChangeKeywords :: "string list" where
  "bgChangeKeywords = [''background'', ''world'', ''environment'', ''location'', ''place'']"

definition BG_PRESERVATION :: string where
  "BG_PRESERVATION = '' [CRITICAL: PIXEL-PERFECT BACKGROUND PRESERVATION] You are editing the character ONLY. The background environment, furniture, lighting, and room structure must remain EXACTLY identical to the source image. Do not hallucinate new background details. Treat the background as a locked layer.''"

definition BG_NEGATIVE :: string where
  "BG_NEGATIVE = '' [NEGATIVE PROMPT: (changing background:1.5), new location, different room, remodeling, changing furniture, changing lighting, morphing background, distorted architecture, (bench:1.5), park bench, outdoor furniture, grass, street elements]''"

definition STRUCTURE_LOW :: string where
  "STRUCTURE_LOW = '' [Instruction: You may freely alter the character's pose, action, and composition to fit the prompt. However, you MUST strictly preserve the background structure and perspective of the original image.]''"

definition STRUCTURE_HIGH :: string where
  "STRUCTURE_HIGH = '' [Instruction: Strictly preserve the exact structure, pose, and layout of the original source image. Do not change the camera angle or subject placement unless explicitly asked.]''"

definition STRUCTURE_BALANCED :: string where
  "STRUCTURE_BALANCED = '' [Instruction: Maintain the general structure of the source image while applying the requested changes.]''"

text \<open>Step 1 of the prompt: trimmed, with the aesthetic tokens for the 2K and 4K sizes.\<close>

definition withAesthetics :: "string \<Rightarrow> ImageSize \<Rightarrow> string" where
  "withAesthetics promptText sz =
     (let finalPrompt = trim promptText in
      if sz = S2K \<or> sz = S4K then
        (if \<not> str_includes (toLowerCase finalPrompt) ''hyper-realistic''
         then finalPrompt @ '', '' @ FLUX_AESTHETIC_TOKENS
         else finalPrompt)
      else finalPrompt)"

definition hasBgChangeRequest :: "string \<Rightarrow> bool" where
  "hasBgChangeRequest finalPrompt =
     list_ex (\<lambda>kw. str_includes (toLowerCase finalPrompt) kw) bgChangeKeywords"

text \<open>Step 2: the mask note, or the background freeze when the prompt asks for no change of background.\<close>

definition withMaskInstructions :: "string \<Rightarrow> string option \<Rightarrow> string" where
  "withMaskInstructions finalPrompt msk =
     (if truthy msk then finalPrompt @ MASK_NOTE
      else if \<not> hasBgChangeRequest finalPrompt
        then finalPrompt @ BG_PRESERVATION @ BG_NEGATIVE
        else finalPrompt)"

text \<open>Step 3: the structure instruction chosen by the weight.\<close>

definition withStructure :: "string \<Rightarrow> real \<Rightarrow> string" where
  "withStructure finalPrompt weight =
     (if weight < 30 then finalPrompt @ STRUCTURE_LOW
      else if weight > 70 then finalPrompt @ STRUCTURE_HIGH
      else finalPrompt @ STRUCTURE_BALANCED)"

definition buildPrompt :: "string \<Rightarrow> ImageSize \<Rightarrow> string option \<Rightarrow> real \<Rightarrow> string" where
  "buildPrompt promptText sz msk weight =
     withStructure (withMaskInstructions (withAesthetics promptText sz) msk) weight"

definition refPart :: "'a ImageReference_scheme \<Rightarrow> part" where
  "refPart r = InlineData (base64 r) (mimeType r)"

text \<open>
  The request of \<open>editImage\<close>: the source image, the mask, the assets, the style references
  and the text, in this order; the model and the configuration follow the size.
\<close>

definition buildRequest ::
  "string \<Rightarrow> string \<Rightarrow> string \<Rightarrow> 'a ImageReference_scheme list option \<Rightarrow>
   'b ImageReference_scheme list option \<Rightarrow> ImageSize \<Rightarrow> AspectRatio \<Rightarrow> string option \<Rightarrow>
   real \<Rightarrow> int option \<Rightarrow> request" where
  "buildRequest base64ImageData mime promptText styleReferences assets sz ar msk
      weight sd =
     (let m = (if sz = S2K \<or> sz = S4K then ''gemini-3-pro-image-preview''
               else ''gemini-2.5-flash-image'')
      in \<lparr> model = m,
           parts = [InlineData base64ImageData mime]
             @ (if truthy msk then [InlineData (the msk) ''image/png''] else [])
             @ (case assets of None \<Rightarrow> [] | Some as \<Rightarrow> map refPart as)
             @ (case styleReferences of None \<Rightarrow> [] | Some rs \<Rightarrow> map refPart rs)
             @ [TextPart (buildPrompt promptText sz msk weight)],
           config = \<lparr> aspectRatio = ar, httpTimeout = 300000,
             imageSize = (if m = ''gemini-3-pro-image-preview'' then Some sz else None),
             seed = sd \<rparr> \<rparr>)"

record EditResult =
  res_imageUrl :: "string option"
  res_base64 :: "string option"
  res_mimeType :: "string option"
  res_text :: "string option"

definition emptyResult :: EditResult where
  "emptyResult = \<lparr> res_imageUrl = None, res_base64 = None, res_mimeType = None,
     res_text = None \<rparr>"

text \<open>
  The loop over the segments of the first candidate: a segment with a non-empty text sets
  the text; otherwise a segment with inline data sets the image. There is no \<^verbatim>\<open>break\<close>.
\<close>

fun scanParts :: "rpart list \<Rightarrow> EditResult \<Rightarrow> EditResult" where
  "scanParts [] r = r"
| "scanParts (p # ps) r =
     (if truthy (part_text p) then scanParts ps (r\<lparr>res_text := part_text p\<rparr>)
      else (case inlineData p of
              Some (d, mt) \<Rightarrow>
                scanParts ps (r\<lparr>res_base64 := Some d, res_mimeType := Some mt,
                  res_imageUrl := Some (''data:'' @ mt @ '';base64,'' @ d)\<rparr>)
            | None \<Rightarrow> scanParts ps r))"

text \<open>
  The source reads \<^verbatim>\<open>candidates[0].content.parts\<close> with no test. Reading \<^verbatim>\<open>parts\<close> of a
  missing content throws a \<^verbatim>\<open>TypeError\<close>, and so does a \<^verbatim>\<open>for ... of\<close> over a missing list.
  A \<^verbatim>\<open>TypeError\<close> is an \<^verbatim>\<open>Error\<close>; its message is the engine's, given here in the wording of
  V8.
\<close>

definition noContentMessage :: string where
  "noContentMessage = ''Cannot read properties of undefined (reading 'parts')''"

definition noPartsMessage :: string where
  "noPartsMessage = ''response.candidates[0].content.parts is not iterable''"

definition firstParts :: "Candidate \<Rightarrow> thrown + rpart list" where
  "firstParts c =
     (case content c of
        None \<Rightarrow> Inl (JsError noContentMessage)
      | Some ct \<Rightarrow>
          (case content_parts ct of
             None \<Rightarrow> Inl (JsError noPartsMessage)
           | Some ps \<Rightarrow> Inr ps))"

text \<open>
  What follows the call inside the \<^verbatim>\<open>try\<close> block: the result read from the response, or
  what reading it throws. With no candidate the loop is skipped.
\<close>

definition parseResponse :: "response \<Rightarrow> thrown + EditResult" where
  "parseResponse resp =
     (case candidates resp of
        None \<Rightarrow> Inr emptyResult
      | Some [] \<Rightarrow> Inr emptyResult
      | Some (c # _) \<Rightarrow>
          (case firstParts c of
             Inl e \<Rightarrow> Inl e
           | Inr ps \<Rightarrow> Inr (scanParts ps emptyResult)))"

definition errorMessage :: "thrown \<Rightarrow> string" where
  "errorMessage e = (case e of JsError m \<Rightarrow> m | NonError s \<Rightarrow> s)"

definition isTransientError :: "string \<Rightarrow> bool" where
  "isTransientError msg =
     (str_includes msg ''503'' \<or> str_includes msg ''Deadline expired''
      \<or> str_includes msg ''timeout'' \<or> str_includes msg ''Overloaded'')"

definition isApiKeyIssue :: "string \<Rightarrow> bool" where
  "isApiKeyIssue msg =
     (str_includes msg ''403'' \<or> str_includes msg ''API key not valid''
      \<or> str_includes msg ''Requested entity was not found'')"

text \<open>What the \<^verbatim>\<open>catch\<close> block throws once it does not retry.\<close>

definition surface :: "thrown \<Rightarrow> string" where
  "surface e =
     (case e of
        JsError m \<Rightarrow>
          (if isApiKeyIssue m
           then ''Invalid API Key or project configuration. Please check your AI Studio settings.''
           else if isTransientError m then ''SERVER_BUSY''
           else m)
      | NonError _ \<Rightarrow>
          ''An unexpected error occurred while communicating with the Gemini API.'')"

definition maxRetries :: nat where
  "maxRetries = 1"

text \<open>
  The \<^verbatim>\<open>try\<close> block: the call, then the reading of the response. \<open>Inl\<close> carries what the
  block throws, whether the call threw it or the reading did.
\<close>

definition tryBlock :: "request \<Rightarrow> world \<Rightarrow> (thrown + EditResult) \<times> world" where
  "tryBlock req w =
     (case generateContent req w of
        (Returns resp, w1) \<Rightarrow> (parseResponse resp, w1)
      | (Throws e, w1) \<Rightarrow> (Inl e, w1))"

text \<open>
  The retry loop, from \<open>attempt\<close> on. \<open>Inl\<close> carries the message of the \<^verbatim>\<open>Error\<close> that
  \<open>editImage\<close> throws, \<open>Inr\<close> the result it returns.
\<close>

function retryLoop :: "request \<Rightarrow> nat \<Rightarrow> world \<Rightarrow> (string + EditResult) \<times> world" where
  "retryLoop req attempt w =
     (if attempt \<le> maxRetries then
        (case tryBlock req w of
           (Inr r, w1) \<Rightarrow> (Inr r, w1)
         | (Inl e, w1) \<Rightarrow>
             (if isTransientError (errorMessage e) \<and> attempt < maxRetries
              then retryLoop req (attempt + 1) (sleep 2000 w1)
              else (Inl (surface e), w1)))
      else (Inl ''Failed to generate image after retries.'', w))"
  by pat_completeness auto
termination
  by (relation "measure (\<lambda>(req, attempt, w). Suc maxRetries - attempt)") auto

definition editImage ::
  "string \<Rightarrow> string \<Rightarrow> string \<Rightarrow> 'a ImageReference_scheme list option \<Rightarrow>
   'b ImageReference_scheme list option \<Rightarrow> ImageSize \<Rightarrow> AspectRatio \<Rightarrow> string option \<Rightarrow>
   real \<Rightarrow> int option \<Rightarrow> world \<Rightarrow> (string + EditResult) \<times> world" where
  "editImage base64ImageData mime promptText styleReferences assets sz ar msk
      weight sd w =
     retryLoop
       (buildRequest base64ImageData mime promptText styleReferences assets sz ar msk
          weight sd) 0 w"

declare retryLoop.simps [simp del]

section \<open>The application state and its handlers\<close>

datatype CameraAngle = Front | Side | Back | Sheet

datatype ToastType = Success | Error | Info

text \<open>
  The state of \<open>App\<close> that the handlers read and write. \<open>toasts\<close> is the sequence of
  \<^verbatim>\<open>showToast\<close> calls made so far, each with its message and type.
\<close>

record app =
  originalImage :: "ImageSource option"
  sourceImage :: "ImageSource option"
  maskImage :: "string option"
  styleReferenceImages :: "ImageSource list"
  assetImages :: "ImageSource list"
  currentGeneratedImage :: "ImageSource option"
  generatedImageHistory :: "ImageSource list"
  isGenerating :: bool
  isUpscaling :: bool
  error :: "string option"
  isSwapping :: bool
  isKeyModalOpen :: bool
  apiKey :: string
  selectedSize :: ImageSize
  selectedAspectRatio :: AspectRatio
  selectedAngle :: "CameraAngle option"
  structureWeight :: real
  randomCinematicPrompt :: string
  isGeneratingScenes :: bool
  sceneProgress :: nat
  selectedShotSize :: "string option"
  selectedCameraHeight :: "string option"
  selectedMotion :: "string option"
  selectedCameraMovement :: "string option"
  selectedTrendyStyle :: "string option"
  toasts :: "(string \<times> ToastType) list"

definition showToast :: "string \<Rightarrow> ToastType \<Rightarrow> app \<Rightarrow> app" where
  "showToast msg ty s = s\<lparr>toasts := toasts s @ [(msg, ty)]\<rparr>"

text \<open>The two messages of the string table \<open>t\<close> that \<open>executeGeneration\<close> reads; the table is a parameter.\<close>

record i18n =
  serverBusy :: string
  genError :: string

subsection \<open>The fragment tables\<close>

definition SHOT_SIZES :: "(string \<times> string) list" where
  "SHOT_SIZES =
     [(''ecu'',
       ''Extreme Close-up (ECU) shot on a Macro lens 100mm, focus purely on iris/lips, extreme skin texture detail, f/2.8, intense intimacy.''),
      (''closeup'',
       ''Cinematic Close-up shot on an 85mm Portrait Prime lens, tight framing chin-to-forehead, compression effect, creamy bokeh background (f/1.4).''),
      (''bust'',
       ''Medium Close-up (MCU) shot on a 50mm Standard lens, chest-up shot, natural distortion, subject separated from background, authentic look.''),
      (''fullbody'',
       ''Wide Shot (Full Shot) on a 24mm Wide-angle lens, slight barrel distortion, capturing full room context, expansive depth, head to toe visible.'')]"

definition CAMERA_HEIGHTS :: "(string \<times> string) list" where
  "CAMERA_HEIGHTS =
     [(''low'',
       ''Low angle shot''),
      (''eye'',
       ''Eye-level shot''),
      (''high'',
       ''High angle shot'')]"

definition CAMERA_MOVEMENTS :: "(string \<times> string) list" where
  "CAMERA_MOVEMENTS =
     [(''static'',
       ''Static camera, tripod shot, stable footage, no shake''),
      (''smooth'',
       ''Smooth gimbal shot, floating camera, cinematic stabilizer, slow pan or tilt''),
      (''dynamic'',
       ''Documentary style, Dynamic camera movement, Raw footage look, slightly unstable angle, Immersive POV. --no motion blur''),
      (''tracking'',
       ''Tracking shot, dolly shot, camera following the subject, keeping subject in frame'')]"

definition TRENDY_STYLES :: "(string \<times> string) list" where
  "TRENDY_STYLES =
     [(''kpop'',
       ''High-budget music video still frame, powerful synchronized dance choreography captured mid-motion, energetic performance, dynamic camera angle, dramatic stage lighting with lens flare, sharp focus on movement, vibrant cinematic color grading.''),
      (''tiktok'',
       ''Viral social media dance clip screenshot, trendy aesthetic, dynamic body movement, slight motion blur emphasizing action, handheld camera feel, raw energy, candid yet stylish composition, distinct street fashion.''),
      (''street'',
       ''High-fashion streetwear editorial advertisement, professional model with a powerful and confident pose, gritty urban background, professional commercial photography lighting, sharp focus, shallow depth of field, premium brand look.''),
      (''dance'',
       ''Spectacular professional dance photography, frozen mid-air action pose, explosive movement, high tension, dramatic lighting highlighting muscle definition, impactful composition, raw power and grace.'')]"

definition MOTIONS :: "string list" where
  "MOTIONS = [''static'', ''sitting'', ''lying'', ''running'', ''jumping'', ''crying'', ''reaching'', ''crouching'', ''lookingup'']"

definition SCENARIO_POOLS :: "(string \<times> string list) list" where
  "SCENARIO_POOLS =
     [(''sitting'',
       [''sitting naturally on the existing furniture, relaxed posture, candid vibe, looking slightly away'',
        ''sitting on a ledge or surface with legs dangling, shot from below, carefree vibe, raw aesthetic'',
        ''curled up in a chair, hugging knees, cozy vibe, comfort, slightly out of focus, home snapshot'',
        ''lounging sideways on a sofa, looking at ceiling, boredom, flash photography style'',
        ''sitting on the floor with legs crossed, eating a snack, candid moment'']),
      (''lying'',
       [''lying flat on the existing surface, staring up at the camera (POV), peaceful, messy hair'',
        ''lying on side comfortably, resting on the current furniture/floor, relaxed everyday pose, candid snapshot'',
        ''lying on stomach, reading a magazine or looking at phone, raw energy, teenage room vibe'',
        ''lounging back, blending into the scene, flash photography, sharp shadows'']),
      (''running'',
       [''Running TOWARDS the camera, hair flying, blurry motion, excited expression, teenage vibe'',
        ''Turning head sharply to look back, hair whipping around, surprised look, candid chase shot'',
        ''sprinting towards the camera laughing, motion blur, urgent expression, cinematic action'',
        ''jogging lightly with headphones, relaxed expression, morning exercise vibe'']),
      (''jumping'',
       [''Dancing freely, blurred arms, hair in motion, flash photography style, energetic party vibe'',
        ''mid-air freeze frame of a joyful jump, arms raised, celebration, natural lighting'',
        ''jumping over a small obstacle in an urban setting, parkour light, street style'',
        ''levitating slightly off the ground, surreal atmosphere, dreamy, floating hair'']),
      (''crying'',
       [''Covering mouth while laughing (eyes crinkled, tears of joy), candid moment, raw emotion'',
        ''sitting curled up, hiding face, emotional moment within the current setting, raw emotion'',
        ''standing and wiping tears, emotional expression, blending with the current lighting'',
        ''head in hands, sobbing, deep emotion, isolated in the current room'']),
      (''static'',
       [''POV shot holding a smartphone camera, taking a mirror selfie, looking at the screen, flash on'',
        ''Fixing hair while looking at a reflection, unaware of the camera, candid snapshot'',
        ''Covering mouth while laughing, candid moment, eyes crinkled, raw aesthetic'',
        ''Whispering a secret to someone off-camera, hand cupped around mouth, secretive vibe'',
        ''leaning against a wall, one foot up, cool attitude, street style'',
        ''casual standing, hands in pockets, looking sideways, candid shot'']),
      (''reaching'',
       [''Leaning extremely close into the camera lens (fisheye effect), playful expression, winking, reaching out'',
        ''Blocking the camera lens with one hand playfully, candid snapshot, blurred hand foreground'',
        ''reaching hand towards the camera lens, forced perspective, blurring hand, emotional connection'']),
      (''crouching'',
       [''Tying shoelaces while crouching down, street snap vibe, looking down'',
        ''crouching down low, street level view, candid moment, wide angle'',
        ''squatting down, resting elbows on knees, casual street pose, low angle, waiting for someone'']),
      (''lookingup'',
       [''head tilted back looking at the sky, exposing neck line, rain or sunlight on face, dreamy'',
        ''looking up in awe, soft lighting on face, contemplative expression''])]"

text \<open>\<^verbatim>\<open>TABLE.find(s => s.val === v)\<close>, then its prompt.\<close>

definition findPrompt :: "(string \<times> string) list \<Rightarrow> string option \<Rightarrow> string list" where
  "findPrompt table sel =
     (if truthy sel then (case map_of table (the sel) of Some p \<Rightarrow> [p] | None \<Rightarrow> []) else [])"

text \<open>
  \<^verbatim>\<open>pool[Math.floor(Math.random() * pool.length)]\<close>: the draw is a parameter \<open>dice\<close>, and
  \<open>dice mod length pool\<close> ranges over the indices of the pool.
\<close>

definition pick :: "nat \<Rightarrow> string list \<Rightarrow> string" where
  "pick dice pool = pool ! (dice mod length pool)"

text \<open>A regular expression \<^verbatim>\<open>/a|b/i.test(s)\<close> of plain alternatives.\<close>

definition testAny :: "string list \<Rightarrow> string \<Rightarrow> bool" where
  "testAny alts s = list_ex (\<lambda>a. str_includes (toLowerCase s) a) alts"

subsection \<open>The prompt of \<open>executeGeneration\<close>\<close>

definition motionPrompts :: "app \<Rightarrow> nat \<Rightarrow> string list" where
  "motionPrompts s dice =
     (if truthy (selectedMotion s) then
        (case map_of SCENARIO_POOLS (the (selectedMotion s)) of
           Some pool \<Rightarrow> [pick dice pool]
         | None \<Rightarrow>
             (if the (selectedMotion s) \<in> set MOTIONS \<and> the (selectedMotion s) = ''static''
              then [''Standing still, calm pose, steady, no movement''] else []))
      else [])"

definition cinematicPrompts :: "app \<Rightarrow> nat \<Rightarrow> string list" where
  "cinematicPrompts s dice =
     findPrompt SHOT_SIZES (selectedShotSize s)
     @ findPrompt CAMERA_HEIGHTS (selectedCameraHeight s)
     @ motionPrompts s dice
     @ findPrompt CAMERA_MOVEMENTS (selectedCameraMovement s)
     @ findPrompt TRENDY_STYLES (selectedTrendyStyle s)"

definition effectiveStructureWeight :: "app \<Rightarrow> real option \<Rightarrow> real" where
  "effectiveStructureWeight s overrideStructureWeight =
     (case overrideStructureWeight of
        Some v \<Rightarrow> v
      | None \<Rightarrow>
          (if truthy (selectedMotion s)
              \<and> map_of SCENARIO_POOLS (the (selectedMotion s)) \<noteq> None
              \<and> the (selectedMotion s) \<noteq> ''static''
           then 20 else structureWeight s))"

definition angleSpecific :: "CameraAngle \<Rightarrow> string" where
  "angleSpecific a =
     (case a of
        Front \<Rightarrow> ''Symmetrical front view, facing the camera directly''
      | Side \<Rightarrow> ''Side profile view, walking sideways''
      | Back \<Rightarrow> ''View from behind, back of the character, facing away from camera''
      | Sheet \<Rightarrow> [])"

definition anglePrompts :: "app \<Rightarrow> string list" where
  "anglePrompts s =
     (if selectedAngle s = Some Side
      then [''Profile view of subject. Background perspective shifts to reveal the SIDE WALL and depth of the room. Vanishing point moves to the side. NOT a flat background.'']
      else [])
     @ (if selectedAngle s = Some Back
        then [''Reverse angle shot. Showing the OPPOSITE side of the room (e.g., the door or wall BEHIND the character). The window is now behind the camera.'']
        else [])
     @ (if selectedCameraHeight s = Some ''low''
        then [''Worm's eye view. Visible CEILING structure, upper parts of furniture/windows, and tall vertical lines. Floor is not visible.'']
        else [])
     @ (if selectedCameraHeight s = Some ''high''
        then [''Bird's eye view. Visible FLOOR texture and patterns, tops of furniture. Ceiling is not visible.'']
        else [])
     @ (case selectedAngle s of
          None \<Rightarrow> []
        | Some a \<Rightarrow>
            (if a \<noteq> Sheet
             then [''Wide-angle shot, cinematic lighting, 8k resolution, ample space above head and below feet, head to toe visible'',
                   angleSpecific a]
             else [''Character reference sheet, showing front view, side view, and back view of the same character standing side by side, consistent character details, white background'']))"

definition isCinematicActive :: "app \<Rightarrow> bool" where
  "isCinematicActive s =
     (truthy (selectedShotSize s) \<or> truthy (selectedCameraHeight s) \<or> truthy (selectedMotion s)
      \<or> truthy (selectedCameraMovement s) \<or> randomCinematicPrompt s \<noteq> [])"

definition depthPrompts :: "app \<Rightarrow> string list" where
  "depthPrompts s =
     (let rcp = randomCinematicPrompt s in
      if isCinematicActive s \<and> selectedAngle s \<noteq> Some Sheet then
        [''volumetric atmosphere, depth of field, spatial depth, 3D render style environment'']
        @ (if selectedCameraHeight s = Some ''low''
              \<or> (rcp \<noteq> [] \<and> testAny [''low angle'', ''worm''] rcp)
           then [''imposing perspective, towering background elements''] else [])
        @ (if selectedCameraHeight s = Some ''high''
              \<or> (rcp \<noteq> [] \<and> testAny [''high angle'', ''drone''] rcp)
           then [''ground-level details emphasized''] else [])
        @ (if selectedCameraMovement s = Some ''dynamic''
              \<or> selectedShotSize s = Some ''extremewide''
              \<or> (rcp \<noteq> [] \<and> testAny [''fisheye'', ''wide-angle''] rcp)
           then [''wide-angle lens distortion, expansive view of the entire room corner, exaggerated perspective vanishing point, seeing multiple walls and floor simultaneously'']
           else [])
        @ (if rcp \<noteq> [] \<and> testAny [''dutch angle'', ''tilted''] rcp
           then [''disoriented tilted horizon line, slanted walls and floor, dynamic diagonal composition of the space'']
           else [])
      else [])"

definition strictNegativePrompts :: "app \<Rightarrow> string list" where
  "strictNegativePrompts s =
     [''(changing background:1.5)'', ''new location'', ''different room'', ''remodeling'',
      ''changing furniture'', ''changing lighting'', ''morphing background'',
      ''distorted architecture'']
     @ (if selectedMotion s = Some ''sitting'' \<or> selectedMotion s = Some ''lying''
        then [''(bench:1.5)'', ''park bench'', ''outdoor furniture'', ''grass'', ''street elements'',
              ''public park'', ''new chair'']
        else [])
     @ (if (case selectedMotion s of None \<Rightarrow> [] | Some m \<Rightarrow> m)
             \<in> set [''running'', ''jumping'', ''reaching'', ''crouching'']
        then [''(martial arts, kung fu, fighting stance, superhero landing, combat, punching, kicking, karate:1.5)'']
        else [])
     @ (if selectedMotion s = Some ''running'' \<or> selectedMotion s = Some ''jumping''
        then [''distance running'', ''track'', ''road'', ''spacious outdoors'', ''changing location'',
              ''forest'', ''street'']
        else [])
     @ [''outdoor'', ''exterior'', ''sky'', ''sunlight'', ''nature'']"

definition negativeBlock :: "app \<Rightarrow> string" where
  "negativeBlock s = ''[NEGATIVE PROMPT: '' @ join '', '' (strictNegativePrompts s) @ '']''"

definition promptParts :: "app \<Rightarrow> string \<Rightarrow> nat \<Rightarrow> string list" where
  "promptParts s targetPrompt dice =
     (if targetPrompt \<noteq> [] \<and> length (trim targetPrompt) > 0 then [trim targetPrompt] else [])
     @ anglePrompts s
     @ (if length (cinematicPrompts s dice) > 0 then [join '', '' (cinematicPrompts s dice)] else [])
     @ (if randomCinematicPrompt s \<noteq> []
        then [''(Director's Cut: '' @ randomCinematicPrompt s @ '')''] else [])
     @ depthPrompts s
     @ [negativeBlock s]
     @ (if truthy (selectedMotion s)
        then [''candid photography, motion blur, direct flash, slightly out of focus, raw aesthetic, teenage vibe, high school concept, iPhone camera quality'',
              ''[NEGATIVE PROMPT: studio lighting, perfect pose, his model, professional headshot, staged photo]'']
        else [])"

definition composePrompt :: "app \<Rightarrow> string \<Rightarrow> nat \<Rightarrow> string" where
  "composePrompt s targetPrompt dice =
     (let finalPrompt = join '', '' (promptParts s targetPrompt dice) in
      if finalPrompt = [] \<or> length (trim finalPrompt) = 0
      then ''High quality image transformation, cinematic lighting, 8k resolution''
      else finalPrompt)"

subsection \<open>\<open>executeGeneration\<close>\<close>

text \<open>\<^verbatim>\<open>result.imageUrl && result.base64 && result.mimeType\<close>.\<close>

definition hasImage :: "EditResult \<Rightarrow> bool" where
  "hasImage r = (truthy (res_imageUrl r) \<and> truthy (res_base64 r) \<and> truthy (res_mimeType r))"

definition toImageSource :: "EditResult \<Rightarrow> string \<Rightarrow> nat \<Rightarrow> bool \<Rightarrow> ImageSource" where
  "toImageSource r p ts sheet =
     \<lparr> base64 = the (res_base64 r), mimeType = the (res_mimeType r),
       url = the (res_imageUrl r), prompt = Some p, timestamp = Some ts,
       isSheet = Some sheet \<rparr>"

text \<open>The style references and the assets both calls pass on.\<close>

definition styleRefsArg :: "app \<Rightarrow> ImageSource list option \<Rightarrow> ImageSource list option" where
  "styleRefsArg s overrideStyleRefs =
     (case overrideStyleRefs of
        Some rs \<Rightarrow> Some rs
      | None \<Rightarrow> (if length (styleReferenceImages s) > 0 then Some (styleReferenceImages s) else None))"

definition assetsArg :: "app \<Rightarrow> ImageSource list option" where
  "assetsArg s = (if length (assetImages s) > 0 then Some (assetImages s) else None)"

text \<open>\<^verbatim>\<open>maskImage || undefined\<close>.\<close>

definition maskArg :: "app \<Rightarrow> string option" where
  "maskArg s = (if truthy (maskImage s) then maskImage s else None)"

text \<open>The updater of the history when the upscaled image arrives: the last record is replaced.\<close>

definition replaceLast :: "ImageSource list \<Rightarrow> ImageSource \<Rightarrow> ImageSource list" where
  "replaceLast prev upscaledImg =
     (if length prev > 0 then prev[length prev - 1 := upscaledImg] else prev)"

text \<open>The two records built from a result: the first one and the upscaled one.\<close>

definition newImg :: "app \<Rightarrow> string \<Rightarrow> string \<Rightarrow> nat \<Rightarrow> EditResult \<Rightarrow> ImageSource" where
  "newImg s targetPrompt finalPrompt now1 result =
     toImageSource result
       (if targetPrompt \<noteq> [] then targetPrompt
        else ''[Click Generation] '' @ take 30 finalPrompt @ ''...'')
       now1 (selectedAngle s = Some Sheet)"

definition upscaledImg :: "app \<Rightarrow> string \<Rightarrow> nat \<Rightarrow> EditResult \<Rightarrow> ImageSource" where
  "upscaledImg s targetPrompt now2 upscaleResult =
     toImageSource upscaleResult
       ((if targetPrompt \<noteq> [] then targetPrompt else ''[Click Generation]'') @ '' (Upscaled)'')
       now2 (selectedAngle s = Some Sheet)"

text \<open>
  The upscale pass: the second call of \<open>editImage\<close>, on the image of the first result, with
  no mask, at weight 100 and size 4K. A failure leaves an informational toast.
\<close>

definition upscalePass ::
  "EditResult \<Rightarrow> string \<Rightarrow> string \<Rightarrow> AspectRatio \<Rightarrow> ImageSource list option \<Rightarrow> int option \<Rightarrow>
   nat \<Rightarrow> app \<Rightarrow> world \<Rightarrow> app \<times> world" where
  "upscalePass result targetPrompt finalPrompt ar overrideStyleRefs sd now2 s w =
     (let s1 = s\<lparr>isUpscaling := True\<rparr> in
      case editImage (the (res_base64 result)) (the (res_mimeType result)) finalPrompt
             (styleRefsArg s overrideStyleRefs) (assetsArg s) S4K ar None 100 sd w of
        (Inr upscaleResult, w1) \<Rightarrow>
          (if hasImage upscaleResult then
             (s1\<lparr>currentGeneratedImage := Some (upscaledImg s targetPrompt now2 upscaleResult),
                  generatedImageHistory :=
                    replaceLast (generatedImageHistory s1)
                      (upscaledImg s targetPrompt now2 upscaleResult),
                  isUpscaling := False\<rparr>, w1)
           else (s1\<lparr>isUpscaling := False\<rparr>, w1))
      | (Inl upscaleErr, w1) \<Rightarrow>
          ((showToast ''4K Upscale failed due to timeout, but 1K image is saved.'' Info s1)
              \<lparr>isUpscaling := False\<rparr>, w1))"

text \<open>A parameter with a default value: the argument if it is given, else the default.\<close>

definition defaultArg :: "'a option \<Rightarrow> 'a \<Rightarrow> 'a" where
  "defaultArg arg d = (case arg of Some v \<Rightarrow> v | None \<Rightarrow> d)"

text \<open>
  \<open>executeGeneration\<close>. The arguments \<open>size\<close> and \<open>aspectRatio\<close> default to the selected
  ones. \<open>dice\<close> is the random draw of the scenario, \<open>now1\<close> and \<open>now2\<close> are the values of
  \<^verbatim>\<open>Date.now()\<close> at the two results. The value returned is the new record, if any.
\<close>

definition executeGeneration ::
  "i18n \<Rightarrow> nat \<Rightarrow> nat \<Rightarrow> nat \<Rightarrow> string \<Rightarrow> ImageSize option \<Rightarrow> AspectRatio option \<Rightarrow>
   ImageSource list option \<Rightarrow> real option \<Rightarrow> int option \<Rightarrow> app \<Rightarrow> world \<Rightarrow>
   ImageSource option \<times> app \<times> world" where
  "executeGeneration t dice now1 now2 targetPrompt sizeArg aspectRatioArg overrideStyleRefs
      overrideStructureWeight sd s w =
     (case sourceImage s of
        None \<Rightarrow>
          (None, showToast ''Please upload a source image first.'' Error
                   (s\<lparr>error := Some ''Upload a source image.''\<rparr>), w)
      | Some src \<Rightarrow>
          if apiKey s = [] then
            (None, (showToast ''Please set your Gemini API Key in settings first.'' Error
                      (s\<lparr>error := Some ''API Key Required''\<rparr>))\<lparr>isKeyModalOpen := True\<rparr>, w)
          else
            (let size = defaultArg sizeArg (selectedSize s);
                 ar = defaultArg aspectRatioArg (selectedAspectRatio s);
                 s0 = s\<lparr>isGenerating := True, isUpscaling := False, error := None\<rparr>;
                 finalPrompt = composePrompt s targetPrompt dice;
                 initialSize = (if size = S4K then S1K else size)
             in case editImage (base64 src) (mimeType src) finalPrompt
                       (styleRefsArg s overrideStyleRefs) (assetsArg s) initialSize ar (maskArg s)
                       (effectiveStructureWeight s overrideStructureWeight) sd w of
                  (Inr result, w1) \<Rightarrow>
                    (if hasImage result then
                       (let s1 = s0\<lparr>currentGeneratedImage :=
                                      Some (newImg s targetPrompt finalPrompt now1 result),
                                    generatedImageHistory :=
                                      generatedImageHistory s0
                                        @ [newImg s targetPrompt finalPrompt now1 result],
                                    isGenerating := False\<rparr>
                        in if size = S4K then
                             (case upscalePass result targetPrompt finalPrompt ar overrideStyleRefs
                                     sd now2 s1 w1 of
                                (s2, w2) \<Rightarrow>
                                  (Some (newImg s targetPrompt finalPrompt now1 result), s2, w2))
                           else (Some (newImg s targetPrompt finalPrompt now1 result), s1, w1))
                     else (None, s0\<lparr>isGenerating := False\<rparr>, w1))
                | (Inl msg, w1) \<Rightarrow>
                    (let errorMsg0 = (if msg \<noteq> [] then msg else ''Unknown error'');
                         errorMsg = (if errorMsg0 = ''SERVER_BUSY'' \<or> str_includes errorMsg0 ''503''
                                        \<or> str_includes errorMsg0 ''Deadline''
                                     then serverBusy t else errorMsg0)
                     in (None,
                         showToast (if errorMsg = serverBusy t then errorMsg else genError t) Error
                           (s0\<lparr>isGenerating := False, isUpscaling := False,
                               error := Some errorMsg\<rparr>), w1))))"

subsection \<open>\<open>handleGeneratePersonaScenes\<close>\<close>

definition scenes :: "(string \<times> string) list" where
  "scenes =
     [(''Establishing Shot'',
       ''Cinematic Establishing Shot, Wide Angle Master Shot. Show the character in their full environment. Action: Sitting on the bed or interacting with the space. Mood: Atmospheric. Persona: ''),
      (''Emotional Close-up'',
       ''Extreme Close-up (ECU) on face, High Angle POV. Focus on eyes reflecting light, subtle emotional expression. Intimate mood. Persona: ''),
      (''Activity/Hobby'',
       ''Mid-Shot or Over-the-Shoulder. Character is busy with a hobby, writing in a diary, or using a phone. Focused action. Persona: ''),
      (''Vibe Snapshot'',
       ''Candid Snapshot, 'NewJeans' style aesthetic. Dutch Angle, Direct Flash, Motion Blur. Breaking the 4th wall, playful or lazy. Raw teenage vibe. Persona: ''),
      (''Detail Macro'',
       ''Artistic Macro Shot (B-roll). Focus on hands holding an object, textures of clothing, or environmental details. No face necessary. Persona: '')]"




subsection \<open>The other handlers of the history\<close>










section \<open>The mask panel: \<open>ImagePanel\<close>\<close>

text \<open>
  Coordinates are JavaScript numbers; they are taken here as exact reals, so the rounding
  of floating-point arithmetic is not part of the model. The fields of a point are
  \<^verbatim>\<open>x\<close> and \<^verbatim>\<open>y\<close> in the source.
\<close>

record Point =
  px :: real
  py :: real

record Path =
  points :: "Point list"
  strokeWidth :: real

text \<open>
  What the handlers read of the displayed \<^verbatim>\<open><img>\<close>: its natural and rendered sizes and
  the left and top of its bounding rectangle.
\<close>

record ImgElement =
  naturalWidth :: nat
  naturalHeight :: nat
  width :: nat
  height :: nat
  rectLeft :: real
  rectTop :: real

text \<open>
  The rectangle the image really covers inside its element (\<^verbatim>\<open>object-contain\<close>). The
  source computes it in place in \<open>getNormalizedPoint\<close>, \<open>draw\<close> and \<open>adjustCanvas\<close>, each
  time with the same lines; \<open>boxTop\<close> and \<open>boxLeft\<close> are its \<^verbatim>\<open>top\<close> and \<^verbatim>\<open>left\<close>.
\<close>

record RenderBox =
  renderWidth :: real
  renderHeight :: real
  boxTop :: real
  boxLeft :: real

definition renderBox :: "ImgElement \<Rightarrow> RenderBox" where
  "renderBox img =
     (let imageRatio = real (naturalWidth img) / real (naturalHeight img);
          containerRatio = real (width img) / real (height img)
      in if containerRatio > imageRatio then
           \<lparr> renderWidth = real (height img) * imageRatio,
             renderHeight = real (height img),
             boxTop = 0,
             boxLeft = (real (width img) - real (height img) * imageRatio) / 2 \<rparr>
         else
           \<lparr> renderWidth = real (width img),
             renderHeight = real (width img) / imageRatio,
             boxTop = (real (height img) - real (width img) / imageRatio) / 2,
             boxLeft = 0 \<rparr>)"

definition getNormalizedPoint :: "ImgElement option \<Rightarrow> real \<Rightarrow> real \<Rightarrow> Point option" where
  "getNormalizedPoint imgRef clientX clientY =
     (case imgRef of
        None \<Rightarrow> None
      | Some img \<Rightarrow>
          (let b = renderBox img;
               offsetX = clientX - rectLeft img - boxLeft b;
               offsetY = clientY - rectTop img - boxTop b
           in if offsetX < 0 \<or> offsetX > renderWidth b \<or> offsetY < 0 \<or> offsetY > renderHeight b
              then None
              else Some \<lparr> px = offsetX / renderWidth b, py = offsetY / renderHeight b \<rparr>))"


subsection \<open>The 2D canvas\<close>

text \<open>
  A canvas with its 2D context: the drawing state, the current path and what has been
  painted so far, in order. Painting the pixels themselves is the browser's. \<open>Filled\<close>
  holds the fill style and the rectangle (x, y, width, height); \<open>Stroked\<close> holds the
  stroke style, the line width, the cap, the join, the alpha and the points of the path.
  A path is begun and moved to once before its lines, so one list of points holds it.
\<close>

datatype paint =
    Filled string real real real real
  | Stroked string real string string real "(real \<times> real) list"

record canvas =
  cwidth :: nat
  cheight :: nat
  fillStyle :: string
  strokeStyle :: string
  lineWidth :: real
  lineCap :: string
  lineJoin :: string
  globalAlpha :: real
  currentSubpath :: "(real \<times> real) list"
  painted :: "paint list"

text \<open>A fresh canvas of the given size, with the defaults of a 2D context.\<close>

definition createCanvas :: "nat \<Rightarrow> nat \<Rightarrow> canvas" where
  "createCanvas w h =
     \<lparr> cwidth = w, cheight = h, fillStyle = ''#000000'', strokeStyle = ''#000000'',
       lineWidth = 1, lineCap = ''butt'', lineJoin = ''miter'', globalAlpha = 1,
       currentSubpath = [], painted = [] \<rparr>"

definition fillRect :: "real \<Rightarrow> real \<Rightarrow> real \<Rightarrow> real \<Rightarrow> canvas \<Rightarrow> canvas" where
  "fillRect x0 y0 w h c = c\<lparr>painted := painted c @ [Filled (fillStyle c) x0 y0 w h]\<rparr>"

definition beginPath :: "canvas \<Rightarrow> canvas" where
  "beginPath c = c\<lparr>currentSubpath := []\<rparr>"

definition moveTo :: "real \<times> real \<Rightarrow> canvas \<Rightarrow> canvas" where
  "moveTo q c = c\<lparr>currentSubpath := [q]\<rparr>"

definition lineTo :: "real \<times> real \<Rightarrow> canvas \<Rightarrow> canvas" where
  "lineTo q c = c\<lparr>currentSubpath := currentSubpath c @ [q]\<rparr>"

definition stroke :: "canvas \<Rightarrow> canvas" where
  "stroke c =
     c\<lparr>painted := painted c @
          [Stroked (strokeStyle c) (lineWidth c) (lineCap c) (lineJoin c) (globalAlpha c)
             (currentSubpath c)]\<rparr>"

subsection \<open>Recording strokes\<close>

text \<open>
  The state of the panel. \<open>imgRef\<close> and \<open>overlay\<close> are the two refs (the overlay with its
  context), \<open>currentPath\<close> is the ref holding the stroke in progress.
\<close>

record panel =
  imgRef :: "ImgElement option"
  overlay :: "canvas option"
  isMasking :: bool
  isDrawing :: bool
  paths :: "Path list"
  currentPath :: "Point list"

definition startDrawing :: "real \<Rightarrow> real \<Rightarrow> panel \<Rightarrow> panel" where
  "startDrawing clientX clientY p =
     (case getNormalizedPoint (imgRef p) clientX clientY of
        Some point \<Rightarrow> p\<lparr>isDrawing := True, currentPath := [point]\<rparr>
      | None \<Rightarrow> p)"


subsection \<open>Exporting the mask\<close>

text \<open>
  Two things are the browser's: whether the offscreen canvas gives a 2D context, and the
  PNG encoding, \<^verbatim>\<open>offscreen.toDataURL('image/png').split(',')[1]\<close>.
\<close>

record browser =
  ctxAvailable :: bool
  pngBase64 :: "canvas \<Rightarrow> string"

text \<open>One path on the offscreen canvas: skipped below two points, else one stroke.\<close>

definition strokePath :: "canvas \<Rightarrow> Path \<Rightarrow> canvas" where
  "strokePath c path =
     (if length (points path) < 2 then c
      else
        (let scale = (\<lambda>q. (px q * real (cwidth c), py q * real (cheight c)))
         in stroke (foldl (\<lambda>c' q. lineTo (scale q) c')
                      (moveTo (scale (points path ! 0)) (beginPath c))
                      (tl (points path)))))"

text \<open>The offscreen canvas of \<open>exportMask\<close> once every path has been stroked.\<close>

definition maskCanvas :: "ImgElement \<Rightarrow> Path list \<Rightarrow> canvas" where
  "maskCanvas img currentPaths =
     (let offscreen = createCanvas (naturalWidth img) (naturalHeight img);
          c1 = fillRect 0 0 (real (cwidth offscreen)) (real (cheight offscreen))
                 (offscreen\<lparr>fillStyle := ''black''\<rparr>);
          c2 = c1\<lparr>lineCap := ''round'', lineJoin := ''round'', strokeStyle := ''white'',
                  lineWidth := real (cwidth offscreen) * 0.05\<rparr>
      in foldl strokePath c2 currentPaths)"

text \<open>
  \<open>exportMask\<close>, with \<^verbatim>\<open>onMaskChange\<close> bound to \<^verbatim>\<open>setMaskImage\<close> as \<open>App\<close> binds it: the state
  of the application receives the mask.
\<close>

definition exportMask :: "browser \<Rightarrow> ImgElement option \<Rightarrow> Path list \<Rightarrow> app \<Rightarrow> app" where
  "exportMask b imgR currentPaths s =
     (case imgR of
        None \<Rightarrow> s\<lparr>maskImage := None\<rparr>
      | Some img \<Rightarrow>
          if length currentPaths = 0 then s\<lparr>maskImage := None\<rparr>
          else if \<not> ctxAvailable b then s
          else s\<lparr>maskImage := Some (pngBase64 b (maskCanvas img currentPaths))\<rparr>)"

definition stopDrawing :: "browser \<Rightarrow> panel \<Rightarrow> app \<Rightarrow> panel \<times> app" where
  "stopDrawing b p s =
     (if \<not> isDrawing p then (p, s)
      else if length (currentPath p) > 0 then
        (let newPaths = paths p @ [\<lparr> points = currentPath p, strokeWidth = 0.05 \<rparr>]
         in (p\<lparr>isDrawing := False, paths := newPaths, currentPath := []\<rparr>,
             exportMask b (imgRef p) newPaths s))
      else (p\<lparr>isDrawing := False, currentPath := []\<rparr>, s))"

definition clearMask :: "panel \<Rightarrow> app \<Rightarrow> panel \<times> app" where
  "clearMask p s =
     (p\<lparr>paths := [],
        overlay := (case overlay p of
                      Some c \<Rightarrow> Some (c\<lparr>painted := []\<rparr>)
                    | None \<Rightarrow> None)\<rparr>,
      s\<lparr>maskImage := None\<rparr>)"

section \<open>Sample data and notions used in the statements\<close>

text \<open>The state \<open>App\<close> starts in, with no key stored.\<close>

definition initialApp :: app where
  "initialApp =
     \<lparr> originalImage = None, sourceImage = None, maskImage = None,
       styleReferenceImages = [], assetImages = [], currentGeneratedImage = None,
       generatedImageHistory = [], isGenerating = False, isUpscaling = False, error = None,
       isSwapping = False, isKeyModalOpen = False, apiKey = [], selectedSize = S1K,
       selectedAspectRatio = AR_16_9, selectedAngle = None, structureWeight = 50,
       randomCinematicPrompt = [], isGeneratingScenes = False, sceneProgress = 0,
       selectedShotSize = None, selectedCameraHeight = None,
       selectedMotion = None, selectedCameraMovement = None, selectedTrendyStyle = None,
       toasts = [] \<rparr>"

text \<open>A PNG image source with the given payload, as \<open>fileToImageSource\<close> builds one.\<close>

definition sampleImage :: "string \<Rightarrow> ImageSource" where
  "sampleImage d =
     \<lparr> base64 = d, mimeType = ''image/png'', url = ''data:image/png;base64,'' @ d,
       prompt = None, timestamp = None, isSheet = None \<rparr>"

text \<open>A world in which nothing has been sent yet.\<close>

definition quietWorld :: "(nat \<Rightarrow> request \<Rightarrow> outcome) \<Rightarrow> world" where
  "quietWorld f = \<lparr> service = f, sent = [], slept = [] \<rparr>"

text \<open>What the \<^verbatim>\<open>try\<close> block makes of the outcome of its call.\<close>

definition attempted :: "outcome \<Rightarrow> thrown + EditResult" where
  "attempted out = (case out of Returns resp \<Rightarrow> parseResponse resp | Throws e \<Rightarrow> Inl e)"

text \<open>A response with one candidate that carries the given segments.\<close>

definition withSegments :: "rpart list \<Rightarrow> response" where
  "withSegments ps = \<lparr> candidates = Some [\<lparr> content = Some \<lparr> content_parts = Some ps \<rparr> \<rparr>] \<rparr>"









text \<open>The state once the first result has been made current and appended to the history.\<close>

definition committed :: "app \<Rightarrow> ImageSource \<Rightarrow> app" where
  "committed s img =
     s\<lparr>isUpscaling := False, error := None, currentGeneratedImage := Some img,
       generatedImageHistory := generatedImageHistory s @ [img], isGenerating := False\<rparr>"

text \<open>A state ready to generate: a source image and a key.\<close>

definition sampleApp :: app where
  "sampleApp = initialApp\<lparr>sourceImage := Some (sampleImage ''SRC''), apiKey := ''key''\<rparr>"

definition sampleTable :: i18n where
  "sampleTable = \<lparr> serverBusy = ''Server is busy'', genError = ''Generation failed'' \<rparr>"

text \<open>A response with one PNG image.\<close>

definition oneImage :: "string \<Rightarrow> response" where
  "oneImage d = withSegments [\<lparr> part_text = None, inlineData = Some (d, ''image/png'') \<rparr>]"

text \<open>The result with one PNG image and no text.\<close>

definition pngResult :: "string \<Rightarrow> EditResult" where
  "pngResult d =
     \<lparr> res_imageUrl = Some (''data:image/png;base64,'' @ d), res_base64 = Some d,
       res_mimeType = Some ''image/png'', res_text = None \<rparr>"

text \<open>
  Two services for an ultra-tier generation: the first call answers with an image, the
  second one fails for good, or answers with another image.
\<close>

definition failingUpscale :: "nat \<Rightarrow> request \<Rightarrow> outcome" where
  "failingUpscale n req =
     (if n = 0 then Returns (oneImage ''OUT1'') else Throws (JsError ''500 Internal Server Error''))"

definition upscaling :: "nat \<Rightarrow> request \<Rightarrow> outcome" where
  "upscaling n req = (if n = 0 then Returns (oneImage ''OUT1'') else Returns (oneImage ''OUT2''))"


text \<open>
  Two square images of 100 by 100 pixels: one shown in an element wider than high (free
  space left and right), one in an element higher than wide (free space above and below).
\<close>

definition wideBox :: ImgElement where
  "wideBox = \<lparr> naturalWidth = 100, naturalHeight = 100, width = 400, height = 200,
               rectLeft = 10, rectTop = 20 \<rparr>"


text \<open>A point of a path at the native resolution, and the white stroke of a path on the mask.\<close>

definition scaled :: "ImgElement \<Rightarrow> Point \<Rightarrow> real \<times> real" where
  "scaled img q = (px q * real (naturalWidth img), py q * real (naturalHeight img))"

definition maskStroke :: "ImgElement \<Rightarrow> Path \<Rightarrow> paint" where
  "maskStroke img path =
     Stroked ''white'' (real (naturalWidth img) * 0.05) ''round'' ''round'' 1
       (map (scaled img) (points path))"

text \<open>The drawing state of the offscreen canvas while the paths are stroked.\<close>

definition maskReady :: "ImgElement \<Rightarrow> canvas \<Rightarrow> bool" where
  "maskReady img c =
     (cwidth c = naturalWidth img \<and> cheight c = naturalHeight img \<and> strokeStyle c = ''white''
      \<and> lineWidth c = real (naturalWidth img) * 0.05 \<and> lineCap c = ''round''
      \<and> lineJoin c = ''round'' \<and> globalAlpha c = 1)"

text \<open>A browser that gives a context and encodes every canvas to the same payload.\<close>

definition sampleBrowser :: browser where
  "sampleBrowser = \<lparr> ctxAvailable = True, pngBase64 = (\<lambda>c. ''iVBORw0KGgo'') \<rparr>"

text \<open>A panel in masking mode with no stroke yet.\<close>

definition idlePanel :: panel where
  "idlePanel = \<lparr> imgRef = Some wideBox, overlay = None, isMasking = True, isDrawing = False,
                  paths = [], currentPath = [] \<rparr>"

text \<open>A click and a stroke of two points.\<close>

definition twoPaths :: "Path list" where
  "twoPaths = [\<lparr> points = [\<lparr> px = 1/2, py = 1/2 \<rparr>], strokeWidth = 0.05 \<rparr>,
               \<lparr> points = [\<lparr> px = 0, py = 0 \<rparr>, \<lparr> px = 1, py = 1/2 \<rparr>], strokeWidth = 0.05 \<rparr>]"

section \<open>The retry loop, unrolled\<close>

lemma attempted_simps [simp]:
  "attempted (Returns resp) = parseResponse resp"
  "attempted (Throws e) = Inl e"
  by (simp_all add: attempted_def)

lemma tryBlock_service:
  "tryBlock req w = (attempted (service w (length (sent w)) req), w\<lparr>sent := sent w @ [req]\<rparr>)"
  by (simp add: tryBlock_def generateContent_def split: outcome.splits)

lemma retryLoop_last_attempt:
  "retryLoop req (Suc 0) w =
     (case attempted (service w (length (sent w)) req) of
        Inr r \<Rightarrow> (Inr r, w\<lparr>sent := sent w @ [req]\<rparr>)
      | Inl e \<Rightarrow> (Inl (surface e), w\<lparr>sent := sent w @ [req]\<rparr>))"
  by (simp add: retryLoop.simps tryBlock_service maxRetries_def split: sum.splits)

lemma retryLoop_unrolled:
  "retryLoop req 0 w =
     (case attempted (service w (length (sent w)) req) of
        Inr r \<Rightarrow> (Inr r, w\<lparr>sent := sent w @ [req]\<rparr>)
      | Inl e \<Rightarrow>
          if isTransientError (errorMessage e) then
            (case attempted (service w (Suc (length (sent w))) req) of
               Inr r \<Rightarrow>
                 (Inr r, w\<lparr>sent := sent w @ [req, req], slept := slept w @ [2000]\<rparr>)
             | Inl e2 \<Rightarrow>
                 (Inl (surface e2),
                  w\<lparr>sent := sent w @ [req, req], slept := slept w @ [2000]\<rparr>))
          else (Inl (surface e), w\<lparr>sent := sent w @ [req]\<rparr>))"
  by (subst retryLoop.simps)
    (simp add: tryBlock_service maxRetries_def retryLoop_last_attempt sleep_def
       split: sum.splits)

section \<open>Reading the response\<close>






lemma parseResponse_segments [simp]:
  "parseResponse (withSegments ps) = Inr (scanParts ps emptyResult)"
  by (simp add: parseResponse_def withSegments_def firstParts_def)


lemma parseResponse_unreadable:
  "parseResponse resp = Inl e \<Longrightarrow> e = JsError noContentMessage \<or> e = JsError noPartsMessage"
  by (auto simp: parseResponse_def firstParts_def split: option.splits list.splits)

lemma typeError_surfaced:
  "\<not> isTransientError noContentMessage" "\<not> isTransientError noPartsMessage"
  "surface (JsError noContentMessage) = noContentMessage"
  "surface (JsError noPartsMessage) = noPartsMessage"
  by (simp_all add: surface_def isTransientError_def isApiKeyIssue_def noContentMessage_def
        noPartsMessage_def)

lemma editImage_returns:
  assumes "service w (length (sent w)) (buildRequest b64 mime p srefs assets sz ar mk wt sd)
             = Returns resp"
    and "parseResponse resp = Inr r"
  shows "editImage b64 mime p srefs assets sz ar mk wt sd w
     = (Inr r, w\<lparr>sent := sent w @ [buildRequest b64 mime p srefs assets sz ar mk wt sd]\<rparr>)"
  using assms by (simp add: editImage_def retryLoop_unrolled)

lemma editImage_unreadable:
  assumes "service w (length (sent w)) (buildRequest b64 mime p srefs assets sz ar mk wt sd)
             = Returns resp"
    and "parseResponse resp = Inl e"
  shows "editImage b64 mime p srefs assets sz ar mk wt sd w
     = (Inl (surface e),
        w\<lparr>sent := sent w @ [buildRequest b64 mime p srefs assets sz ar mk wt sd]\<rparr>)"
proof -
  from assms(2) have "\<not> isTransientError (errorMessage e)"
    by (auto dest!: parseResponse_unreadable simp: errorMessage_def typeError_surfaced)
  with assms show ?thesis
    by (simp add: editImage_def retryLoop_unrolled)
qed





section \<open>Reverting\<close>




section \<open>Retrying a call\<close>










section \<open>Generations\<close>

lemma executeGeneration_base_ok:
  assumes "sourceImage s = Some src" and "apiKey s \<noteq> []"
    and "editImage (base64 src) (mimeType src) (composePrompt s tp dice)
           (styleRefsArg s osr) (assetsArg s)
           (if defaultArg sizeArg (selectedSize s) = S4K then S1K
            else defaultArg sizeArg (selectedSize s))
           (defaultArg arArg (selectedAspectRatio s)) (maskArg s)
           (effectiveStructureWeight s ow) sd w
         = (Inr r1, w1)"
    and "hasImage r1"
  shows "executeGeneration t dice now1 now2 tp sizeArg arArg osr ow sd s w =
     (if defaultArg sizeArg (selectedSize s) = S4K then
        (Some (newImg s tp (composePrompt s tp dice) now1 r1),
         upscalePass r1 tp (composePrompt s tp dice) (defaultArg arArg (selectedAspectRatio s))
           osr sd now2 (committed s (newImg s tp (composePrompt s tp dice) now1 r1)) w1)
      else
        (Some (newImg s tp (composePrompt s tp dice) now1 r1),
         committed s (newImg s tp (composePrompt s tp dice) now1 r1), w1))"
proof (cases "defaultArg sizeArg (selectedSize s) = S4K")
  case True
  with assms(3) have "editImage (base64 src) (mimeType src) (composePrompt s tp dice)
           (styleRefsArg s osr) (assetsArg s) S1K
           (defaultArg arArg (selectedAspectRatio s)) (maskArg s)
           (effectiveStructureWeight s ow) sd w = (Inr r1, w1)"
    by simp
  with assms(1,2,4) True show ?thesis
    by (simp add: executeGeneration_def Let_def committed_def split: prod.splits)
next
  case False
  with assms(3) have "editImage (base64 src) (mimeType src) (composePrompt s tp dice)
           (styleRefsArg s osr) (assetsArg s) (defaultArg sizeArg (selectedSize s))
           (defaultArg arArg (selectedAspectRatio s)) (maskArg s)
           (effectiveStructureWeight s ow) sd w = (Inr r1, w1)"
    by simp
  with assms(1,2,4) False show ?thesis
    by (simp add: executeGeneration_def Let_def committed_def)
qed

lemma upscalePass_failed:
  assumes "editImage (the (res_base64 r1)) (the (res_mimeType r1)) fp
             (styleRefsArg s osr) (assetsArg s) S4K ar None 100 sd w = (Inl e, w2)"
  shows "upscalePass r1 tp fp ar osr sd now2 s w =
     (s\<lparr>isUpscaling := False,
         toasts := toasts s @ [(''4K Upscale failed due to timeout, but 1K image is saved.'', Info)]\<rparr>,
      w2)"
  using assms by (simp add: upscalePass_def Let_def showToast_def)

lemma upscalePass_ok:
  assumes "editImage (the (res_base64 r1)) (the (res_mimeType r1)) fp
             (styleRefsArg s osr) (assetsArg s) S4K ar None 100 sd w = (Inr r2, w2)"
  shows "upscalePass r1 tp fp ar osr sd now2 s w =
     (if hasImage r2 then
        s\<lparr>isUpscaling := False,
           currentGeneratedImage := Some (upscaledImg s tp now2 r2),
           generatedImageHistory := replaceLast (generatedImageHistory s) (upscaledImg s tp now2 r2)\<rparr>
      else s\<lparr>isUpscaling := False\<rparr>,
      w2)"
  using assms by (simp add: upscalePass_def Let_def upscaledImg_def styleRefsArg_def assetsArg_def)

lemma replaceLast_snoc: "replaceLast (h @ [r]) u = h @ [u]"
  by (simp add: replaceLast_def)

lemma committed_reads [simp]:
  "styleRefsArg (committed s img) osr = styleRefsArg s osr"
  "assetsArg (committed s img) = assetsArg s"
  "selectedAngle (committed s img) = selectedAngle s"
  "toasts (committed s img) = toasts s"
  "error (committed s img) = None"
  "currentGeneratedImage (committed s img) = Some img"
  "generatedImageHistory (committed s img) = generatedImageHistory s @ [img]"
  "isGenerating (committed s img) = False"
  by (simp_all add: committed_def styleRefsArg_def assetsArg_def split: option.splits)

lemma upscaledImg_committed [simp]:
  "upscaledImg (committed s img) tp now2 r = upscaledImg s tp now2 r"
  by (simp add: upscaledImg_def)

text \<open>
  Claim C7. Take an ultra-tier generation (size 4K, a source image, a key) whose first call
  of \<open>editImage\<close> returns an image and whose upscale call of \<open>editImage\<close> fails with any
  error. Then the history is the old one with the record of the first result appended,
  this record is the current one and carries the image of the first result, exactly one
  toast is added, of type info, no error is set, and nothing is generating or upscaling
  any more.
\<close>

theorem upscale_failure_keeps_base:
  assumes "sourceImage s = Some src" and "apiKey s \<noteq> []"
    and "defaultArg sizeArg (selectedSize s) = S4K"
    and "editImage (base64 src) (mimeType src) (composePrompt s tp dice)
           (styleRefsArg s osr) (assetsArg s) S1K
           (defaultArg arArg (selectedAspectRatio s)) (maskArg s)
           (effectiveStructureWeight s ow) sd w = (Inr r1, w1)"
    and "hasImage r1"
    and "editImage (the (res_base64 r1)) (the (res_mimeType r1)) (composePrompt s tp dice)
           (styleRefsArg s osr) (assetsArg s) S4K
           (defaultArg arArg (selectedAspectRatio s)) None 100 sd w1 = (Inl e, w2)"
  shows "\<exists>s'. executeGeneration t dice now1 now2 tp sizeArg arArg osr ow sd s w
            = (Some (newImg s tp (composePrompt s tp dice) now1 r1), s', w2)
     \<and> generatedImageHistory s'
         = generatedImageHistory s @ [newImg s tp (composePrompt s tp dice) now1 r1]
     \<and> currentGeneratedImage s' = Some (newImg s tp (composePrompt s tp dice) now1 r1)
     \<and> base64 (newImg s tp (composePrompt s tp dice) now1 r1) = the (res_base64 r1)
     \<and> toasts s'
         = toasts s @ [(''4K Upscale failed due to timeout, but 1K image is saved.'', Info)]
     \<and> error s' = None \<and> \<not> isGenerating s' \<and> \<not> isUpscaling s'"
proof -
  let ?img = "newImg s tp (composePrompt s tp dice) now1 r1"
  let ?s' = "(committed s ?img)\<lparr>isUpscaling := False,
      toasts := toasts s @ [(''4K Upscale failed due to timeout, but 1K image is saved.'', Info)]\<rparr>"
  have up: "upscalePass r1 tp (composePrompt s tp dice) (defaultArg arArg (selectedAspectRatio s))
              osr sd now2 (committed s ?img) w1 = (?s', w2)"
    using assms(6) by (simp add: upscalePass_failed)
  have run: "executeGeneration t dice now1 now2 tp sizeArg arArg osr ow sd s w
      = (Some ?img, ?s', w2)"
    using assms(1-5) up by (simp add: executeGeneration_base_ok)
  have b: "base64 ?img = the (res_base64 r1)"
    by (simp add: newImg_def toImageSource_def)
  show ?thesis
    by (rule exI [of _ ?s']) (simp add: run b)
qed

lemma parse_oneImage: "parseResponse (oneImage d) = Inr (pngResult d)"
  by (simp add: oneImage_def emptyResult_def pngResult_def)

lemma pngResult_reads:
  "res_base64 (pngResult d) = Some d" "res_mimeType (pngResult d) = Some ''image/png''"
  "res_imageUrl (pngResult d) = Some (''data:image/png;base64,'' @ d)"
  "res_text (pngResult d) = None"
  by (simp_all add: pngResult_def)

lemma sampleApp_reads:
  "sourceImage sampleApp = Some (sampleImage ''SRC'')" "apiKey sampleApp = ''key''"
  "generatedImageHistory sampleApp = []" "toasts sampleApp = []"
  by (simp_all add: sampleApp_def initialApp_def)

text \<open>The theorem at a service whose second call fails with a 500.\<close>

theorem upscale_failure_keeps_base_witness:
  "\<exists>s'. executeGeneration sampleTable 0 1 2 ''make her smile'' (Some S4K) None None None None
            sampleApp (quietWorld failingUpscale)
        = (Some (newImg sampleApp ''make her smile'' (composePrompt sampleApp ''make her smile'' 0)
                   1 (pngResult ''OUT1'')),
           s',
           snd (editImage ''OUT1'' ''image/png'' (composePrompt sampleApp ''make her smile'' 0)
                  (styleRefsArg sampleApp None) (assetsArg sampleApp) S4K AR_16_9 None 100 None
                  (snd (editImage ''SRC'' ''image/png''
                          (composePrompt sampleApp ''make her smile'' 0)
                          (styleRefsArg sampleApp None) (assetsArg sampleApp) S1K AR_16_9
                          (maskArg sampleApp) (effectiveStructureWeight sampleApp None) None
                          (quietWorld failingUpscale)))))
     \<and> generatedImageHistory s'
         = [newImg sampleApp ''make her smile'' (composePrompt sampleApp ''make her smile'' 0)
              1 (pngResult ''OUT1'')]
     \<and> currentGeneratedImage s'
         = Some (newImg sampleApp ''make her smile'' (composePrompt sampleApp ''make her smile'' 0)
                   1 (pngResult ''OUT1''))
     \<and> base64 (newImg sampleApp ''make her smile'' (composePrompt sampleApp ''make her smile'' 0)
                   1 (pngResult ''OUT1'')) = ''OUT1''
     \<and> toasts s' = [(''4K Upscale failed due to timeout, but 1K image is saved.'', Info)]
     \<and> error s' = None \<and> \<not> isGenerating s' \<and> \<not> isUpscaling s'"
proof -
  let ?fp = "composePrompt sampleApp ''make her smile'' 0"
  let ?w1 = "snd (editImage ''SRC'' ''image/png'' ?fp
                          (styleRefsArg sampleApp None) (assetsArg sampleApp) S1K AR_16_9
                          (maskArg sampleApp) (effectiveStructureWeight sampleApp None) None
                          (quietWorld failingUpscale))"
  have first: "editImage ''SRC'' ''image/png'' ?fp
                 (styleRefsArg sampleApp None) (assetsArg sampleApp) S1K AR_16_9
                 (maskArg sampleApp) (effectiveStructureWeight sampleApp None) None
                 (quietWorld failingUpscale) = (Inr (pngResult ''OUT1''), ?w1)"
    by (simp add: editImage_def retryLoop_unrolled quietWorld_def failingUpscale_def
          parse_oneImage)
  have w1: "service ?w1 = failingUpscale" "length (sent ?w1) = 1"
    by (simp_all add: editImage_def retryLoop_unrolled quietWorld_def failingUpscale_def
          parse_oneImage)
  have second: "editImage ''OUT1'' ''image/png'' ?fp
                  (styleRefsArg sampleApp None) (assetsArg sampleApp) S4K AR_16_9 None 100 None ?w1
      = (Inl ''500 Internal Server Error'',
         snd (editImage ''OUT1'' ''image/png'' ?fp
                  (styleRefsArg sampleApp None) (assetsArg sampleApp) S4K AR_16_9 None 100 None ?w1))"
    unfolding editImage_def [of "''OUT1''"]
    by (simp add: retryLoop_unrolled w1 failingUpscale_def errorMessage_def isTransientError_def
          surface_def isApiKeyIssue_def)
  show ?thesis
    using upscale_failure_keeps_base
      [where s = sampleApp and src = "sampleImage ''SRC''" and sizeArg = "Some S4K"
         and arArg = None and tp = "''make her smile''" and dice = 0 and osr = None and ow = None
         and sd = None and w = "quietWorld failingUpscale"
         and ?r1.0 = "pngResult ''OUT1''" and ?w1.0 = ?w1
         and e = "''500 Internal Server Error''"
         and ?w2.0 = "snd (editImage ''OUT1'' ''image/png'' ?fp
                  (styleRefsArg sampleApp None) (assetsArg sampleApp) S4K AR_16_9 None 100 None ?w1)"
         and t = sampleTable and ?now1.0 = 1 and ?now2.0 = 2]
      first second
    by (simp add: sampleApp_reads defaultArg_def sampleImage_def pngResult_reads hasImage_def
          initialApp_def sampleApp_def)
qed

lemma ultra_run:
  assumes src: "sourceImage s = Some src" and key: "apiKey s \<noteq> []"
    and size: "defaultArg sizeArg (selectedSize s) = S4K"
    and req1: "req1 = buildRequest (base64 src) (mimeType src) (composePrompt s tp dice)
                 (styleRefsArg s osr) (assetsArg s) S1K
                 (defaultArg arArg (selectedAspectRatio s)) (maskArg s)
                 (effectiveStructureWeight s ow) sd"
    and first: "service w (length (sent w)) req1 = Returns resp1"
    and read1: "parseResponse resp1 = Inr r1"
    and img: "hasImage r1"
    and req2: "req2 = buildRequest (the (res_base64 r1)) (the (res_mimeType r1))
                 (composePrompt s tp dice) (styleRefsArg s osr) (assetsArg s) S4K
                 (defaultArg arArg (selectedAspectRatio s)) None 100 sd"
    and second: "service w (Suc (length (sent w))) req2 = Returns resp2"
  shows "executeGeneration t dice now1 now2 tp sizeArg arArg osr ow sd s w
     = (Some (newImg s tp (composePrompt s tp dice) now1 r1),
        (case parseResponse resp2 of
           Inr r2 \<Rightarrow>
             (if hasImage r2 then
                (committed s (newImg s tp (composePrompt s tp dice) now1 r1))
                  \<lparr>isUpscaling := False,
                   currentGeneratedImage := Some (upscaledImg s tp now2 r2),
                   generatedImageHistory := generatedImageHistory s @ [upscaledImg s tp now2 r2]\<rparr>
              else (committed s (newImg s tp (composePrompt s tp dice) now1 r1))
                  \<lparr>isUpscaling := False\<rparr>)
         | Inl e \<Rightarrow>
             (committed s (newImg s tp (composePrompt s tp dice) now1 r1))
               \<lparr>isUpscaling := False,
                toasts := toasts s
                  @ [(''4K Upscale failed due to timeout, but 1K image is saved.'', Info)]\<rparr>),
        w\<lparr>sent := sent w @ [req1, req2]\<rparr>)"
proof -
  let ?fp = "composePrompt s tp dice"
  let ?ar = "defaultArg arArg (selectedAspectRatio s)"
  let ?w1 = "w\<lparr>sent := sent w @ [req1]\<rparr>"
  let ?c = "committed s (newImg s tp ?fp now1 r1)"
  have e1: "editImage (base64 src) (mimeType src) ?fp (styleRefsArg s osr) (assetsArg s) S1K ?ar
              (maskArg s) (effectiveStructureWeight s ow) sd w = (Inr r1, ?w1)"
    using first read1 unfolding req1 by (rule editImage_returns)
  have answered: "service ?w1 (length (sent ?w1)) req2 = Returns resp2"
    using second by simp
  have up: "upscalePass r1 tp ?fp ?ar osr sd now2 ?c ?w1
      = (case parseResponse resp2 of
           Inr r2 \<Rightarrow>
             (if hasImage r2 then
                ?c\<lparr>isUpscaling := False,
                   currentGeneratedImage := Some (upscaledImg s tp now2 r2),
                   generatedImageHistory := generatedImageHistory s @ [upscaledImg s tp now2 r2]\<rparr>
              else ?c\<lparr>isUpscaling := False\<rparr>)
         | Inl e \<Rightarrow>
             ?c\<lparr>isUpscaling := False,
                toasts := toasts s
                  @ [(''4K Upscale failed due to timeout, but 1K image is saved.'', Info)]\<rparr>,
         w\<lparr>sent := sent w @ [req1, req2]\<rparr>)"
  proof (cases "parseResponse resp2")
    case (Inr r2)
    have "editImage (the (res_base64 r1)) (the (res_mimeType r1)) ?fp
              (styleRefsArg s osr) (assetsArg s) S4K ?ar None 100 sd ?w1
            = (Inr r2, ?w1\<lparr>sent := sent ?w1 @ [req2]\<rparr>)"
      using answered Inr unfolding req2 by (rule editImage_returns)
    then show ?thesis
      using Inr by (simp add: upscalePass_ok replaceLast_snoc)
  next
    case (Inl e)
    have "editImage (the (res_base64 r1)) (the (res_mimeType r1)) ?fp
              (styleRefsArg s osr) (assetsArg s) S4K ?ar None 100 sd ?w1
            = (Inl (surface e), ?w1\<lparr>sent := sent ?w1 @ [req2]\<rparr>)"
      using answered Inl unfolding req2 by (rule editImage_unreadable)
    then show ?thesis
      using Inl by (simp add: upscalePass_failed)
  qed
  show ?thesis
    using src key size e1 img up by (simp add: executeGeneration_base_ok)
qed

lemma request_tier:
  "model (buildRequest b64 mime p srefs assets S1K ar mk wt sd) = ''gemini-2.5-flash-image''"
  "imageSize (config (buildRequest b64 mime p srefs assets S1K ar mk wt sd)) = None"
  "model (buildRequest b64 mime p srefs assets S4K ar mk wt sd) = ''gemini-3-pro-image-preview''"
  "imageSize (config (buildRequest b64 mime p srefs assets S4K ar mk wt sd)) = Some S4K"
  by (simp_all add: buildRequest_def Let_def)

lemma request_parts_unmasked:
  "parts (buildRequest b64 mime p srefs assets sz ar None wt sd)
     = InlineData b64 mime
       # (case assets of None \<Rightarrow> [] | Some as \<Rightarrow> map refPart as)
       @ (case srefs of None \<Rightarrow> [] | Some rs \<Rightarrow> map refPart rs)
       @ [TextPart (buildPrompt p sz None wt)]"
  by (simp add: buildRequest_def Let_def)

lemma buildPrompt_full_weight:
  "buildPrompt p sz mk 100 = withMaskInstructions (withAesthetics p sz) mk @ STRUCTURE_HIGH"
  by (simp add: buildPrompt_def withStructure_def)

text \<open>
  Claim C3, as the code has it. Take an ultra-tier generation (size 4K, a source image, a
  key) whose first remote call returns an image and whose second remote call returns
  (whatever the answer).
  Exactly two requests are sent and nothing is waited for. The first request asks the
  standard model with no image size (the tier 1K, not the tier 2K). The second request
  asks for the size 4K, its first part is the image the first call returned, it carries
  no mask, and its text ends with the structure instruction of a weight above 70 (the
  weight passed is 100). When the second call returns an image, the current record is the
  upscaled one and it stands in the history in place of the first one.
\<close>

theorem ultra_two_calls:
  assumes "sourceImage s = Some src" and "apiKey s \<noteq> []"
    and "defaultArg sizeArg (selectedSize s) = S4K"
    and "req1 = buildRequest (base64 src) (mimeType src) (composePrompt s tp dice)
                 (styleRefsArg s osr) (assetsArg s) S1K
                 (defaultArg arArg (selectedAspectRatio s)) (maskArg s)
                 (effectiveStructureWeight s ow) sd"
    and "service w (length (sent w)) req1 = Returns resp1"
    and "parseResponse resp1 = Inr r1"
    and "hasImage r1"
    and "req2 = buildRequest (the (res_base64 r1)) (the (res_mimeType r1))
                 (composePrompt s tp dice) (styleRefsArg s osr) (assetsArg s) S4K
                 (defaultArg arArg (selectedAspectRatio s)) None 100 sd"
    and "service w (Suc (length (sent w))) req2 = Returns resp2"
  shows "(\<exists>s'. executeGeneration t dice now1 now2 tp sizeArg arArg osr ow sd s w
              = (Some (newImg s tp (composePrompt s tp dice) now1 r1), s',
                 w\<lparr>sent := sent w @ [req1, req2]\<rparr>)
          \<and> (\<forall>r2. parseResponse resp2 = Inr r2 \<and> hasImage r2 \<longrightarrow>
                currentGeneratedImage s' = Some (upscaledImg s tp now2 r2)
                \<and> base64 (upscaledImg s tp now2 r2) = the (res_base64 r2)
                \<and> generatedImageHistory s'
                    = generatedImageHistory s @ [upscaledImg s tp now2 r2]))
     \<and> model req1 = ''gemini-2.5-flash-image'' \<and> imageSize (config req1) = None
     \<and> model req2 = ''gemini-3-pro-image-preview'' \<and> imageSize (config req2) = Some S4K
     \<and> parts req2
         = InlineData (the (res_base64 r1)) (the (res_mimeType r1))
           # map refPart (assetImages s)
           @ (case styleRefsArg s osr of None \<Rightarrow> [] | Some rs \<Rightarrow> map refPart rs)
           @ [TextPart (withMaskInstructions (withAesthetics (composePrompt s tp dice) S4K) None
                          @ STRUCTURE_HIGH)]"
proof -
  note run = ultra_run [OF assms, of t now1 now2]
  have a: "(case assetsArg s of None \<Rightarrow> [] | Some as \<Rightarrow> map refPart as) = map refPart (assetImages s)"
    by (simp add: assetsArg_def)
  have b: "base64 (upscaledImg s tp now2 r2) = the (res_base64 r2)" for r2
    by (simp add: upscaledImg_def toImageSource_def)
  show ?thesis
    unfolding run assms(4) assms(8)
    by (simp add: request_tier request_parts_unmasked buildPrompt_full_weight a b)
qed

lemma sample_services:
  "service (quietWorld f) = f" "sent (quietWorld f) = []" "slept (quietWorld f) = []"
  "upscaling 0 req = Returns (oneImage ''OUT1'')"
  "upscaling (Suc 0) req = Returns (oneImage ''OUT2'')"
  by (simp_all add: quietWorld_def upscaling_def)

lemma hasImage_pngResult: "hasImage (pngResult (c # cs))"
  by (simp add: pngResult_def hasImage_def)

text \<open>The theorem at a service that answers both calls with an image.\<close>

theorem ultra_two_calls_witness:
  "map (\<lambda>r. (model r, imageSize (config r)))
       (sent (snd (snd (executeGeneration sampleTable 0 1 2 ''make her smile'' (Some S4K) None
                          None None None sampleApp (quietWorld upscaling)))))
     = [(''gemini-2.5-flash-image'', None), (''gemini-3-pro-image-preview'', Some S4K)]
   \<and> map_option base64
         (currentGeneratedImage (fst (snd (executeGeneration sampleTable 0 1 2 ''make her smile''
            (Some S4K) None None None None sampleApp (quietWorld upscaling)))))
     = Some ''OUT2''"
  using ultra_two_calls
    [where s = sampleApp and src = "sampleImage ''SRC''" and sizeArg = "Some S4K"
       and arArg = None and tp = "''make her smile''" and dice = 0 and osr = None and ow = None
       and sd = None and w = "quietWorld upscaling" and ?resp1.0 = "oneImage ''OUT1''"
       and ?r1.0 = "pngResult ''OUT1''"
       and ?resp2.0 = "oneImage ''OUT2''" and t = sampleTable and ?now1.0 = 1 and ?now2.0 = 2,
     OF _ _ _ refl _ _ _ refl]
  by (auto simp: sampleApp_reads defaultArg_def sample_services parse_oneImage hasImage_def
        pngResult_reads request_tier upscaledImg_def toImageSource_def)

text \<open>
  Claim C3 as the specification words it, with the first call at the high tier, fails: the
  first request goes to the standard model and names no image size.
\<close>

theorem high_tier_counterexample:
  "map (\<lambda>r. (model r, imageSize (config r)))
       (sent (snd (snd (executeGeneration sampleTable 0 1 2 ''add a hat'' (Some S4K) None
                          None None None sampleApp (quietWorld upscaling)))))
     = [(''gemini-2.5-flash-image'', None), (''gemini-3-pro-image-preview'', Some S4K)]"
  using ultra_run
    [where s = sampleApp and src = "sampleImage ''SRC''" and sizeArg = "Some S4K"
       and arArg = None and tp = "''add a hat''" and dice = 0 and osr = None and ow = None
       and sd = None and w = "quietWorld upscaling" and ?resp1.0 = "oneImage ''OUT1''"
       and ?r1.0 = "pngResult ''OUT1''"
       and ?resp2.0 = "oneImage ''OUT2''" and t = sampleTable and ?now1.0 = 1 and ?now2.0 = 2,
     OF _ _ _ refl _ _ _ refl]
  by (simp add: sampleApp_reads defaultArg_def sample_services parse_oneImage hasImage_def
        pngResult_reads request_tier)

section \<open>What changes the history\<close>







section \<open>Normalizing the pointer\<close>







section \<open>The exported mask\<close>

lemma lineTo_foldl:
  "foldl (\<lambda>c' q. lineTo (f q) c') c qs = c\<lparr>currentSubpath := currentSubpath c @ map f qs\<rparr>"
  by (induction qs arbitrary: c) (simp_all add: lineTo_def)

lemma strokePath_painted:
  "strokePath c path =
     (if length (points path) < 2 then c
      else c\<lparr>currentSubpath :=
               map (\<lambda>q. (px q * real (cwidth c), py q * real (cheight c))) (points path),
             painted := painted c @
               [Stroked (strokeStyle c) (lineWidth c) (lineCap c) (lineJoin c) (globalAlpha c)
                  (map (\<lambda>q. (px q * real (cwidth c), py q * real (cheight c))) (points path))]\<rparr>)"
proof (cases "points path")
  case Nil
  then show ?thesis by (simp add: strokePath_def)
next
  case (Cons q qs)
  then show ?thesis
    by (simp add: strokePath_def Let_def lineTo_foldl stroke_def moveTo_def beginPath_def)
qed

lemma strokePath_mask:
  assumes "maskReady img c"
  shows "maskReady img (strokePath c path)
     \<and> painted (strokePath c path)
       = painted c @ (if 2 \<le> length (points path) then [maskStroke img path] else [])"
  using assms
  by (simp add: strokePath_painted maskReady_def maskStroke_def scaled_def not_less)

lemma strokePaths_mask:
  assumes "maskReady img c"
  shows "maskReady img (foldl strokePath c ps)
     \<and> painted (foldl strokePath c ps)
       = painted c @ map (maskStroke img) (filter (\<lambda>path. 2 \<le> length (points path)) ps)"
  using assms
proof (induction ps arbitrary: c)
  case Nil
  then show ?case by simp
next
  case (Cons path ps)
  from strokePath_mask [OF Cons.prems, of path]
  have ready: "maskReady img (strokePath c path)"
    and one: "painted (strokePath c path)
       = painted c @ (if 2 \<le> length (points path) then [maskStroke img path] else [])"
    by simp_all
  from Cons.IH [OF ready] one show ?case
    by simp
qed

lemma maskCanvas_painted:
  "cwidth (maskCanvas img ps) = naturalWidth img \<and> cheight (maskCanvas img ps) = naturalHeight img
   \<and> painted (maskCanvas img ps)
     = Filled ''black'' 0 0 (real (naturalWidth img)) (real (naturalHeight img))
       # map (maskStroke img) (filter (\<lambda>path. 2 \<le> length (points path)) ps)"
proof -
  let ?c2 = "(fillRect 0 0 (real (naturalWidth img)) (real (naturalHeight img))
               ((createCanvas (naturalWidth img) (naturalHeight img))\<lparr>fillStyle := ''black''\<rparr>))
             \<lparr>lineCap := ''round'', lineJoin := ''round'', strokeStyle := ''white'',
              lineWidth := real (naturalWidth img) * 0.05\<rparr>"
  have ready: "maskReady img ?c2"
    by (simp add: maskReady_def fillRect_def createCanvas_def)
  have start: "painted ?c2
      = [Filled ''black'' 0 0 (real (naturalWidth img)) (real (naturalHeight img))]"
    by (simp add: fillRect_def createCanvas_def)
  have unfold: "maskCanvas img ps = foldl strokePath ?c2 ps"
    by (simp add: maskCanvas_def Let_def createCanvas_def)
  from strokePaths_mask [OF ready, of ps] start show ?thesis
    by (simp add: unfold maskReady_def)
qed

text \<open>
  Claim C1. With the image present, a 2D context available and a set of paths that is not
  empty, the mask handed over is the encoding of a canvas of the image's natural width
  and height on which a black rectangle covering all of it was filled first and then,
  for each path of two points or more and in the order of the set, one white stroke with
  round caps and joins, of a width of 5% of the canvas width, through the points scaled
  to the canvas. Nothing else is painted, so a path of fewer than two points leaves no
  white. With an empty set of paths the mask handed over is none.
\<close>

theorem mask_is_black_with_white_strokes:
  "(imgR = Some img \<and> currentPaths \<noteq> [] \<and> ctxAvailable b \<longrightarrow>
      maskImage (exportMask b imgR currentPaths s)
        = Some (pngBase64 b (maskCanvas img currentPaths))
      \<and> cwidth (maskCanvas img currentPaths) = naturalWidth img
      \<and> cheight (maskCanvas img currentPaths) = naturalHeight img
      \<and> painted (maskCanvas img currentPaths)
          = Filled ''black'' 0 0 (real (naturalWidth img)) (real (naturalHeight img))
            # map (maskStroke img) (filter (\<lambda>path. 2 \<le> length (points path)) currentPaths))
   \<and> maskImage (exportMask b imgR [] s) = None"
  by (simp add: exportMask_def maskCanvas_painted split: option.splits)

text \<open>The theorem at a click followed by a stroke of two points.\<close>

theorem mask_is_black_with_white_strokes_witness:
  "maskImage (exportMask sampleBrowser (Some wideBox) twoPaths sampleApp) = Some ''iVBORw0KGgo''
   \<and> cwidth (maskCanvas wideBox twoPaths) = 100 \<and> cheight (maskCanvas wideBox twoPaths) = 100
   \<and> painted (maskCanvas wideBox twoPaths)
       = [Filled ''black'' 0 0 100 100, Stroked ''white'' 5 ''round'' ''round'' 1 [(0, 0), (100, 50)]]"
  using mask_is_black_with_white_strokes [of "Some wideBox" wideBox twoPaths sampleBrowser sampleApp]
  by (simp add: twoPaths_def sampleBrowser_def wideBox_def maskStroke_def scaled_def)

lemma request_parts_masked:
  "truthy mk \<Longrightarrow>
   parts (buildRequest b64 mime p srefs assets sz ar mk wt sd) ! 1
     = InlineData (the mk) ''image/png''"
  by (simp add: buildRequest_def Let_def)

lemma buildPrompt_masked:
  "truthy mk \<Longrightarrow> buildPrompt p sz mk wt = withStructure (withAesthetics p sz @ MASK_NOTE) wt"
  by (simp add: buildPrompt_def withMaskInstructions_def)

text \<open>
  Claim C10. Take a panel that is not drawing, whose paths so far all have fewer than two
  points (none, for instance), a pointer-down inside the image and then a pointer-up with
  no move between. The path of one point is appended to the set, the mask handed over is
  not none, and its canvas shows the black rectangle and nothing else. When the encoding
  is not the empty string, the mask is passed on to the service layer, whose request then
  carries it as second part and whose prompt takes the mask note.
\<close>

theorem single_click_emits_black_mask:
  assumes "imgRef pn = Some img" and "\<not> isDrawing pn"
    and "\<forall>path \<in> set (paths pn). length (points path) < 2"
    and "getNormalizedPoint (Some img) cx cy = Some pt"
    and "ctxAvailable b"
    and "pngBase64 b (maskCanvas img (paths pn @ [\<lparr> points = [pt], strokeWidth = 0.05 \<rparr>])) \<noteq> []"
  shows "\<exists>pn' s'. stopDrawing b (startDrawing cx cy pn) s = (pn', s')
     \<and> paths pn' = paths pn @ [\<lparr> points = [pt], strokeWidth = 0.05 \<rparr>]
     \<and> \<not> isDrawing pn'
     \<and> maskImage s' = Some (pngBase64 b (maskCanvas img (paths pn')))
     \<and> painted (maskCanvas img (paths pn'))
         = [Filled ''black'' 0 0 (real (naturalWidth img)) (real (naturalHeight img))]
     \<and> maskArg s' = maskImage s'
     \<and> parts (buildRequest b64 mime p srefs assets sz ar (maskArg s') wt sd) ! 1
         = InlineData (pngBase64 b (maskCanvas img (paths pn'))) ''image/png''
     \<and> buildPrompt p sz (maskArg s') wt = withStructure (withAesthetics p sz @ MASK_NOTE) wt"
proof -
  define new where "new = paths pn @ [\<lparr> points = [pt], strokeWidth = 0.05 \<rparr>]"
  define m where "m = pngBase64 b (maskCanvas img new)"
  define pn' where "pn' = pn\<lparr>isDrawing := False, paths := new, currentPath := []\<rparr>"
  define s' where "s' = s\<lparr>maskImage := Some m\<rparr>"
  have m: "m \<noteq> []"
    using assms(6) by (simp add: m_def new_def)
  have start: "startDrawing cx cy pn = pn\<lparr>isDrawing := True, currentPath := [pt]\<rparr>"
    using assms(1,4) by (simp add: startDrawing_def)
  have stop: "stopDrawing b (startDrawing cx cy pn) s = (pn', s')"
    using assms(1,5)
    by (simp add: start stopDrawing_def Let_def exportMask_def pn'_def s'_def m_def new_def)
  have ps: "paths pn' = new"
    by (simp add: pn'_def)
  have none: "filter (\<lambda>path. 2 \<le> length (points path)) new = []"
    using assms(3) by (auto simp: filter_empty_conv new_def)
  have black: "painted (maskCanvas img new)
      = [Filled ''black'' 0 0 (real (naturalWidth img)) (real (naturalHeight img))]"
    using maskCanvas_painted [of img new] none by simp
  have arg: "maskArg s' = Some m"
    using m by (simp add: maskArg_def s'_def)
  have tr: "truthy (Some m)"
    using m by simp
  have "stopDrawing b (startDrawing cx cy pn) s = (pn', s')
     \<and> paths pn' = new
     \<and> \<not> isDrawing pn'
     \<and> maskImage s' = Some (pngBase64 b (maskCanvas img (paths pn')))
     \<and> painted (maskCanvas img (paths pn'))
         = [Filled ''black'' 0 0 (real (naturalWidth img)) (real (naturalHeight img))]
     \<and> maskArg s' = maskImage s'
     \<and> parts (buildRequest b64 mime p srefs assets sz ar (maskArg s') wt sd) ! 1
         = InlineData (pngBase64 b (maskCanvas img (paths pn'))) ''image/png''
     \<and> buildPrompt p sz (maskArg s') wt = withStructure (withAesthetics p sz @ MASK_NOTE) wt"
    using request_parts_masked [OF tr, of b64 mime p srefs assets sz ar wt sd]
      buildPrompt_masked [OF tr, of p sz wt]
    by (simp add: stop ps black arg) (simp add: pn'_def s'_def m_def)
  then show ?thesis
    unfolding new_def by blast
qed

text \<open>The theorem at a click in the upper left quarter of the image.\<close>

theorem single_click_emits_black_mask_witness:
  "\<exists>pn' s'. stopDrawing sampleBrowser (startDrawing 160 70 idlePanel) sampleApp = (pn', s')
     \<and> paths pn' = paths idlePanel @ [\<lparr> points = [\<lparr> px = 1/4, py = 1/4 \<rparr>], strokeWidth = 0.05 \<rparr>]
     \<and> \<not> isDrawing pn'
     \<and> maskImage s' = Some (pngBase64 sampleBrowser (maskCanvas wideBox (paths pn')))
     \<and> painted (maskCanvas wideBox (paths pn'))
         = [Filled ''black'' 0 0 (real (naturalWidth wideBox)) (real (naturalHeight wideBox))]
     \<and> maskArg s' = maskImage s'
     \<and> parts (buildRequest ''SRC'' ''image/png'' ''add a hat'' (None :: ImageSource list option)
                (None :: ImageSource list option) S1K AR_1_1 (maskArg s') 50 None) ! 1
         = InlineData (pngBase64 sampleBrowser (maskCanvas wideBox (paths pn'))) ''image/png''
     \<and> buildPrompt ''add a hat'' S1K (maskArg s') 50
         = withStructure (withAesthetics ''add a hat'' S1K @ MASK_NOTE) 50"
  by (rule single_click_emits_black_mask)
    (simp_all add: idlePanel_def sampleBrowser_def getNormalizedPoint_def renderBox_def
       wideBox_def Let_def)

section \<open>The background freeze\<close>

text \<open>
  Every prompt that \<open>executeGeneration\<close> composes contains its negative block, which begins
  with \<^verbatim>\<open>(changing background:1.5)\<close>. So the test of \<open>editImage\<close> for a request to change
  the background always succeeds on it, whatever the user wrote.
\<close>

lemma str_includes_append: "str_includes (a @ kw @ b) kw"
proof (induction a)
  case Nil
  show ?case
  proof (cases "kw @ b")
    case Nil
    then show ?thesis by simp
  next
    case (Cons c cs)
    have "prefix kw (kw @ b)" by simp
    with Cons show ?thesis by simp
  qed
next
  case (Cons x a)
  then show ?case by simp
qed

lemma dropWhile_keeps:
  assumes "m \<noteq> []" and "\<not> P (hd m)"
  shows "dropWhile P (a @ m @ b) = dropWhile P a @ m @ b"
proof (induction a)
  case Nil
  from assms show ?case
    by (cases m) simp_all
next
  case (Cons x a)
  then show ?case by simp
qed

lemma trim_keeps:
  assumes "m \<noteq> []" and "\<not> is_ws (hd m)" and "\<not> is_ws (last m)"
  shows "trim (a @ m @ b) = dropWhile is_ws a @ m @ rev (dropWhile is_ws (rev b))"
proof -
  have front: "dropWhile is_ws (a @ m @ b) = dropWhile is_ws a @ m @ b"
    using assms(1,2) by (rule dropWhile_keeps)
  have "rev m \<noteq> []" and "\<not> is_ws (hd (rev m))"
    using assms(1,3) by (simp_all add: hd_rev)
  then have "dropWhile is_ws (rev b @ rev m @ rev (dropWhile is_ws a))
      = dropWhile is_ws (rev b) @ rev m @ rev (dropWhile is_ws a)"
    by (rule dropWhile_keeps)
  then show ?thesis
    by (simp add: trim_def front)
qed

lemma join_keeps: "x \<in> set xs \<Longrightarrow> \<exists>a b. join sep xs = a @ x @ b"
proof (induction sep xs rule: join.induct)
  case (1 sep)
  then show ?case by simp
next
  case (2 sep y)
  then have "join sep [y] = [] @ x @ []" by simp
  then show ?case by blast
next
  case (3 sep y z zs)
  show ?case
  proof (cases "x = y")
    case True
    then have "join sep (y # z # zs) = [] @ x @ (sep @ join sep (z # zs))" by simp
    then show ?thesis by blast
  next
    case False
    with 3 obtain a b where "join sep (z # zs) = a @ x @ b" by auto
    then have "join sep (y # z # zs) = (y @ sep @ a) @ x @ b" by simp
    then show ?thesis by blast
  qed
qed

lemma negativeBlock_background:
  "\<exists>b. negativeBlock s = ''[NEGATIVE PROMPT: (changing '' @ ''background'' @ b"
  by (simp add: negativeBlock_def strictNegativePrompts_def)

lemma promptParts_background:
  "\<exists>a b. join '', '' (promptParts s tp dice) = a @ ''background'' @ b"
proof -
  have "negativeBlock s \<in> set (promptParts s tp dice)"
    by (simp add: promptParts_def)
  then obtain a b where j: "join '', '' (promptParts s tp dice) = a @ negativeBlock s @ b"
    using join_keeps by blast
  obtain c where "negativeBlock s = ''[NEGATIVE PROMPT: (changing '' @ ''background'' @ c"
    using negativeBlock_background by blast
  with j have "join '', '' (promptParts s tp dice)
      = (a @ ''[NEGATIVE PROMPT: (changing '') @ ''background'' @ (c @ b)"
    by simp
  then show ?thesis by blast
qed

lemma composePrompt_background:
  "\<exists>a b. composePrompt s tp dice = a @ ''background'' @ b"
proof -
  obtain a b where j: "join '', '' (promptParts s tp dice) = a @ ''background'' @ b"
    using promptParts_background by blast
  have "trim (a @ ''background'' @ b)
      = dropWhile is_ws a @ ''background'' @ rev (dropWhile is_ws (rev b))"
    by (rule trim_keeps) (simp_all add: is_ws_def)
  then have "trim (join '', '' (promptParts s tp dice)) \<noteq> []"
    by (simp add: j)
  with j have "composePrompt s tp dice = a @ ''background'' @ b"
    by (simp add: composePrompt_def Let_def)
  then show ?thesis by blast
qed

lemma withAesthetics_background:
  "\<exists>a b. withAesthetics (composePrompt s tp dice) sz = a @ ''background'' @ b"
proof -
  obtain a b where c: "composePrompt s tp dice = a @ ''background'' @ b"
    using composePrompt_background by blast
  have t: "trim (composePrompt s tp dice)
      = dropWhile is_ws a @ ''background'' @ rev (dropWhile is_ws (rev b))"
    unfolding c by (rule trim_keeps) (simp_all add: is_ws_def)
  show ?thesis
  proof (cases "withAesthetics (composePrompt s tp dice) sz = trim (composePrompt s tp dice)")
    case True
    with t show ?thesis by metis
  next
    case False
    then have "withAesthetics (composePrompt s tp dice) sz
        = trim (composePrompt s tp dice) @ '', '' @ FLUX_AESTHETIC_TOKENS"
      by (simp add: withAesthetics_def Let_def split: if_splits)
    with t have "withAesthetics (composePrompt s tp dice) sz
        = dropWhile is_ws a @ ''background''
          @ (rev (dropWhile is_ws (rev b)) @ '', '' @ FLUX_AESTHETIC_TOKENS)"
      by simp
    then show ?thesis by blast
  qed
qed

lemma hasBgChangeRequest_background: "hasBgChangeRequest (a @ ''background'' @ b)"
proof -
  have "toLowerCase (a @ ''background'' @ b)
      = toLowerCase a @ ''background'' @ toLowerCase b"
    by (simp add: toLowerCase_def lower_char_def)
  then have "str_includes (toLowerCase (a @ ''background'' @ b)) ''background''"
    by (simp only: str_includes_append)
  then show ?thesis
    by (simp add: hasBgChangeRequest_def bgChangeKeywords_def)
qed

lemma composed_prompt_never_frozen:
  "buildPrompt (composePrompt s tp dice) sz None wt
     = withStructure (withAesthetics (composePrompt s tp dice) sz) wt"
proof -
  obtain a b where "withAesthetics (composePrompt s tp dice) sz = a @ ''background'' @ b"
    using withAesthetics_background by blast
  then have "hasBgChangeRequest (withAesthetics (composePrompt s tp dice) sz)"
    by (simp only: hasBgChangeRequest_background)
  then show ?thesis
    by (simp add: buildPrompt_def withMaskInstructions_def)
qed

lemma standard_run:
  assumes "sourceImage s = Some src" and "apiKey s \<noteq> []"
    and "defaultArg sizeArg (selectedSize s) \<noteq> S4K"
    and "service w (length (sent w))
           (buildRequest (base64 src) (mimeType src) (composePrompt s tp dice)
              (styleRefsArg s osr) (assetsArg s) (defaultArg sizeArg (selectedSize s))
              (defaultArg arArg (selectedAspectRatio s)) (maskArg s)
              (effectiveStructureWeight s ow) sd) = Returns resp1"
    and "parseResponse resp1 = Inr r1"
    and "hasImage r1"
  shows "executeGeneration t dice now1 now2 tp sizeArg arArg osr ow sd s w
     = (Some (newImg s tp (composePrompt s tp dice) now1 r1),
        committed s (newImg s tp (composePrompt s tp dice) now1 r1),
        w\<lparr>sent := sent w @
             [buildRequest (base64 src) (mimeType src) (composePrompt s tp dice)
                (styleRefsArg s osr) (assetsArg s) (defaultArg sizeArg (selectedSize s))
                (defaultArg arArg (selectedAspectRatio s)) (maskArg s)
                (effectiveStructureWeight s ow) sd]\<rparr>)"
  using assms(1,2,3,6) editImage_returns [OF assms(4,5)]
  by (simp add: executeGeneration_base_ok)

lemma request_text:
  "last (parts (buildRequest b64 mime p srefs assets sz ar mk wt sd))
     = TextPart (buildPrompt p sz mk wt)"
  by (simp add: buildRequest_def Let_def)

lemma compose_sample:
  "composePrompt sampleApp ''make her smile'' 0
     = ''make her smile, [NEGATIVE PROMPT: (changing background:1.5), new location, different room, remodeling, changing furniture, changing lighting, morphing background, distorted architecture, outdoor, exterior, sky, sunlight, nature]''"
  by (simp add: composePrompt_def promptParts_def anglePrompts_def cinematicPrompts_def
        findPrompt_def motionPrompts_def depthPrompts_def isCinematicActive_def negativeBlock_def
        strictNegativePrompts_def sampleApp_def initialApp_def trim_def is_ws_def Let_def)

lemma sampleApp_settings:
  "maskArg sampleApp = None" "effectiveStructureWeight sampleApp None = 50"
  "selectedSize sampleApp = S1K"
  by (simp_all add: maskArg_def effectiveStructureWeight_def sampleApp_def initialApp_def)

lemma scene_prompt_frozen:
  "buildPrompt (snd (scenes ! 1) @ '' '' @ ''make her smile'') S1K None 20
     = snd (scenes ! 1) @ '' make her smile'' @ BG_PRESERVATION @ BG_NEGATIVE @ STRUCTURE_LOW"
  by (simp add: scenes_def buildPrompt_def withStructure_def withMaskInstructions_def
        withAesthetics_def trim_def is_ws_def hasBgChangeRequest_def bgChangeKeywords_def
        toLowerCase_def lower_char_def)

text \<open>
  Claim C6, at a generation where the code departs from it. The free text
  \<open>make her smile\<close> contains no keyword and there is no mask, so the background freeze is
  due. The text that \<open>executeGeneration\<close> sends is the free text, the negative block and
  the structure instruction: the freeze is missing. Called with the free text alone, or
  with the prefix of the second persona scene before it as
  \<open>handleGeneratePersonaScenes\<close> calls it, \<open>editImage\<close> does append the freeze.
\<close>

theorem background_freeze_skipped:
  "\<not> hasBgChangeRequest ''make her smile''
   \<and> maskArg sampleApp = None
   \<and> map (\<lambda>r. last (parts r))
        (sent (snd (snd (executeGeneration sampleTable 0 5 9 ''make her smile'' None None None
                           None None sampleApp (quietWorld upscaling)))))
     = [TextPart (''make her smile, [NEGATIVE PROMPT: (changing background:1.5), new location, different room, remodeling, changing furniture, changing lighting, morphing background, distorted architecture, outdoor, exterior, sky, sunlight, nature]''
                  @ STRUCTURE_BALANCED)]
   \<and> buildPrompt ''make her smile'' S1K None 50
     = ''make her smile'' @ BG_PRESERVATION @ BG_NEGATIVE @ STRUCTURE_BALANCED
   \<and> buildPrompt (snd (scenes ! 1) @ '' '' @ ''make her smile'') S1K None 20
     = snd (scenes ! 1) @ '' make her smile'' @ BG_PRESERVATION @ BG_NEGATIVE @ STRUCTURE_LOW"
proof -
  have free: "\<not> hasBgChangeRequest ''make her smile''"
    by (simp add: hasBgChangeRequest_def bgChangeKeywords_def toLowerCase_def lower_char_def)
  have direct: "buildPrompt ''make her smile'' S1K None 50
      = ''make her smile'' @ BG_PRESERVATION @ BG_NEGATIVE @ STRUCTURE_BALANCED"
    using free
    by (simp add: buildPrompt_def withStructure_def withMaskInstructions_def withAesthetics_def
          trim_def is_ws_def)
  have composed: "buildPrompt (composePrompt sampleApp ''make her smile'' 0) S1K None 50
      = composePrompt sampleApp ''make her smile'' 0 @ STRUCTURE_BALANCED"
    unfolding composed_prompt_never_frozen
    by (simp add: compose_sample withStructure_def withAesthetics_def trim_def is_ws_def)
  have run: "sent (snd (snd (executeGeneration sampleTable 0 5 9 ''make her smile'' None None None
                           None None sampleApp (quietWorld upscaling))))
      = [buildRequest ''SRC'' ''image/png'' (composePrompt sampleApp ''make her smile'' 0)
           (styleRefsArg sampleApp None) (assetsArg sampleApp) S1K AR_16_9 None 50 None]"
    using standard_run
      [where s = sampleApp and src = "sampleImage ''SRC''" and sizeArg = None and arArg = None
         and tp = "''make her smile''" and dice = 0 and osr = None and ow = None and sd = None
         and w = "quietWorld upscaling" and ?resp1.0 = "oneImage ''OUT1''"
         and ?r1.0 = "pngResult ''OUT1''" and t = sampleTable
         and ?now1.0 = 5 and ?now2.0 = 9]
    by (simp add: sampleApp_reads sampleApp_settings defaultArg_def sample_services
          parse_oneImage hasImage_def pngResult_reads sampleImage_def)
       (simp add: sampleApp_def initialApp_def)
  show ?thesis
    using scene_prompt_frozen
    by (simp add: free sampleApp_settings run request_text composed direct)
      (simp add: compose_sample)
qed

end
